theory Spec2Isabelle
  imports Complex_Main "HOL-Library.Word"
begin

unbundle bit_operations_syntax

section \<open>Data model\<close>

text \<open>
  Byte strings and text are both character lists. Python's unbounded integers are \<open>int\<close>
  (the verdict bitmask, combined with \<open>OR\<close>), lengths and limits are \<open>nat\<close>, point values
  and times are \<open>real\<close> (the graders only copy and compare them).
\<close>

type_synonym bytes = string

datatype error =
    UnicodeDecodeError
  | OutputLimitExceeded
  | CompileError string
  | InternalError string
  | UnboundLocalError string
  | AttributeError string
  | AssertionError
  | KeyError string
  | OtherError string

datatype proc_id = Submission | Interactor

text \<open>
  \<open>CheckerResult(passed, points, feedback=None, extended_feedback=None)\<close>; a checker returns
  either a plain boolean or such an object (\<open>CheckerOutput\<close>).
\<close>

datatype CheckerResult =
  CheckerResult (passed: bool) (check_points: real)
    (check_feedback: "string option") (check_extended_feedback: "string option")

datatype CheckerOutput = Plain bool | Rich CheckerResult

text \<open>The keyword arguments of a checker call (\<open>StandardGrader.check_result\<close>, lines 67-81).\<close>

record checker_args =
  arg_proc_output :: bytes
  arg_judge_output :: bytes
  arg_submission_source :: bytes
  arg_judge_input :: bytes
  arg_point_value :: real
  arg_case_position :: nat
  arg_batch :: nat
  arg_submission_language :: string
  arg_binary_data :: bool
  arg_execution_time :: real
  arg_problem_id :: string

text \<open>
  The checker is a \<open>partial\<close> object: \<open>run_on_error\<close> is the value of
  \<open>getattr(checker.func, 'run_on_error', False)\<close>, \<open>call\<close> is what calling it does: it
  returns a \<open>CheckerOutput\<close> or raises.
\<close>

record checker =
  run_on_error :: bool
  call :: "checker_args \<Rightarrow> error + CheckerOutput"

record TestCase =
  case_points :: real
  position :: nat
  batch :: nat
  input_data :: bytes
  output_data :: bytes
  has_binary_data :: bool
  output_limit_length :: nat
  case_checker :: checker

record Result =
  result_flag :: int
  points :: real
  feedback :: string
  extended_feedback :: string
  proc_output :: bytes
  execution_time :: real

text \<open>
  The class \<open>Result\<close> is not under src/: the values of its flag constants are parameters
  of the model.
\<close>

record flag_values =
  AC :: int
  WA :: int
  OLE :: int

datatype event =
    Launch proc_id
  | Wait proc_id
  | Kill proc_id
  | MarkOLE proc_id
  | Communicate nat nat
  | PopulateResult
  | CheckerCall checker_args
  | ParseReturnCode
  | PipeCreated nat nat
  | Close nat
  | TempCreated string
  | TempDeleted string
  | FreeData

text \<open>
  What a grader mutates while it grades one case: the descriptors the judge holds, the
  temporary files that exist, the processes known to have terminated, the processes marked
  as over the output limit, the attributes the grader object stores between its steps, and
  the log of the calls made to the collaborators.
\<close>

record world =
  open_fds :: "nat list"
  next_fd :: nat
  temp_files :: "string list"
  terminated :: "proc_id list"
  ole_marked :: "proc_id list"
  fsize :: nat
  current_proc :: "proc_id option"
  interactor :: "proc_id option"
  interactor_stdin_pipe :: nat
  interactor_stdout_pipe :: nat
  interactor_time_limit :: real
  interactor_memory_limit :: nat
  trace :: "event list"

text \<open>A step either returns a value or raises; the world it leaves behind is kept in both cases.\<close>

type_synonym 'a exec = "world \<Rightarrow> (error + 'a) \<times> world"

definition ret :: "'a \<Rightarrow> 'a exec" where
  "ret x w = (Inr x, w)"

definition raise :: "error \<Rightarrow> 'a exec" where
  "raise e w = (Inl e, w)"

definition bind :: "'a exec \<Rightarrow> ('a \<Rightarrow> 'b exec) \<Rightarrow> 'b exec" where
  "bind m f w = (case m w of (Inl e, w') \<Rightarrow> (Inl e, w') | (Inr x, w') \<Rightarrow> f x w')"

definition emit :: "event \<Rightarrow> unit exec" where
  "emit ev w = (Inr (), w\<lparr>trace := trace w @ [ev]\<rparr>)"

text \<open>Python's \<open>a or b\<close> on an optional string: \<open>None\<close> and the empty string are falsy.\<close>

definition or_else :: "string option \<Rightarrow> string \<Rightarrow> string" where
  "or_else a b = (case a of None \<Rightarrow> b | Some s \<Rightarrow> if s = [] then b else s)"

section \<open>Collaborators that are not part of the graders\<close>

text \<open>
  The sandbox as the standard grader sees it: whether \<open>binary.launch\<close> raises, what the
  submission writes to its standard output and standard error, and the flags and the time
  of the post-mortem report.
\<close>

record sandbox =
  launch_error :: "error option"
  sub_stdout :: bytes
  sub_stderr :: bytes
  sub_flags :: int
  sub_time :: real

text \<open>
  Modelled from the spec: \<open>TracedPopen.wait\<close> is not under src/. The spec calls it a
  blocking wait: when it returns, the process has terminated.
\<close>

definition wait :: "proc_id \<Rightarrow> unit exec" where
  "wait p w = (Inr (), w\<lparr>terminated := p # terminated w, trace := trace w @ [Wait p]\<rparr>)"

text \<open>
  Modelled from the spec: \<open>TracedPopen.mark_ole\<close> and \<open>TracedPopen.kill\<close> are not under
  src/. \<open>mark_ole\<close> records on the process handle that the output limit was exceeded.
\<close>

definition mark_ole :: "proc_id \<Rightarrow> unit exec" where
  "mark_ole p w = (Inr (), w\<lparr>ole_marked := p # ole_marked w, trace := trace w @ [MarkOLE p]\<rparr>)"

definition kill :: "proc_id \<Rightarrow> unit exec" where
  "kill p = emit (Kill p)"

text \<open>
  Modelled from the spec: \<open>TracedPopen.communicate\<close> is not under src/. The spec's
  bounded read returns the captured standard output and standard error; once the
  submission's output crosses \<open>outlimit\<close> it stops reading and raises
  \<open>OutputLimitExceeded\<close>; the captured standard error is capped at \<open>errlimit\<close>. It does
  not mark the process: \<open>mark_ole\<close> is a call of its own in the spec's interface.
\<close>

definition communicate ::
  "'a sandbox_scheme \<Rightarrow> proc_id \<Rightarrow> nat \<Rightarrow> nat \<Rightarrow> (bytes \<times> bytes) exec" where
  "communicate sb p outlimit errlimit =
     bind (emit (Communicate outlimit errlimit)) (\<lambda>_.
       if length (sub_stdout sb) > outlimit
       then raise OutputLimitExceeded
       else ret (sub_stdout sb, take errlimit (sub_stderr sb)))"

text \<open>
  Modelled from the spec: the executor's \<open>populate_result\<close> is not under src/. It fills
  the flags and the time of the Result from the post-mortem report of the sandbox; a
  process marked as over the output limit gets the output-limit-exceeded flag.
\<close>

definition populate_result ::
  "flag_values \<Rightarrow> 'a sandbox_scheme \<Rightarrow> bytes \<Rightarrow> Result \<Rightarrow> proc_id \<Rightarrow> Result exec" where
  "populate_result fv sb err r p w =
     (Inr (r\<lparr>result_flag :=
              result_flag r OR sub_flags sb OR (if p \<in> set (ole_marked w) then OLE fv else 0),
            execution_time := sub_time sb\<rparr>),
      w\<lparr>trace := trace w @ [PopulateResult]\<rparr>)"

section \<open>StandardGrader\<close>

record StandardGrader =
  source :: bytes
  language :: string
  problem_id :: string
  time_limit :: real
  memory_limit :: nat
  memfd_output :: bool
  orig_fsize :: nat

text \<open>\<open>StandardGrader._launch_process\<close> (lines 92-112).\<close>

definition Standard_launch_process ::
  "'s sandbox_scheme \<Rightarrow> 'g StandardGrader_scheme \<Rightarrow> TestCase \<Rightarrow> unit exec" where
  "Standard_launch_process sb g c w =
     (let w1 = (if memfd_output g
                then w\<lparr>fsize := max (orig_fsize g) (max (output_limit_length c + 1024) 1048576)\<rparr>
                else w)
      in case launch_error sb of
           Some e \<Rightarrow> (Inl e, w1)
         | None \<Rightarrow> (Inr (), w1\<lparr>current_proc := Some Submission,
                                trace := trace w1 @ [Launch Submission]\<rparr>))"

text \<open>
  \<open>StandardGrader._interact_with_process\<close> (lines 114-139). The Result is mutated in
  place by the source; here the updated Result is returned with the captured standard error.
\<close>

definition Standard_interact_with_process ::
  "'s sandbox_scheme \<Rightarrow> 'g StandardGrader_scheme \<Rightarrow> TestCase \<Rightarrow> Result \<Rightarrow> (bytes \<times> Result) exec" where
  "Standard_interact_with_process sb g c r w =
     (case current_proc w of
        None \<Rightarrow> (Inl AssertionError, w)
      | Some p \<Rightarrow>
          if memfd_output g then
            bind (wait p) (\<lambda>_.
              let r1 = r\<lparr>proc_output := sub_stdout sb\<rparr> in
              bind (if length (proc_output r1) > output_limit_length c
                    then mark_ole p else ret ()) (\<lambda>_.
              ret (sub_stderr sb, r1))) w
          else
            (case communicate sb p (output_limit_length c) 1048576 w of
               (Inr (out, err), w1) \<Rightarrow>
                 bind (wait p) (\<lambda>_. ret (err, r\<lparr>proc_output := out\<rparr>)) w1
             | (Inl e, w1) \<Rightarrow>
                 if e = OutputLimitExceeded
                 then bind (kill p) (\<lambda>_. bind (wait p) (\<lambda>_. ret ([], r))) w1
                 else bind (wait p) (\<lambda>_. raise e) w1))"

text \<open>\<open>StandardGrader.check_result\<close> (lines 58-90).\<close>

definition checker_args_of ::
  "'g StandardGrader_scheme \<Rightarrow> TestCase \<Rightarrow> Result \<Rightarrow> checker_args" where
  "checker_args_of g c r =
     \<lparr>arg_proc_output = proc_output r,
      arg_judge_output = output_data c,
      arg_submission_source = source g,
      arg_judge_input = input_data c,
      arg_point_value = case_points c,
      arg_case_position = position c,
      arg_batch = batch c,
      arg_submission_language = language g,
      arg_binary_data = has_binary_data c,
      arg_execution_time = execution_time r,
      arg_problem_id = problem_id g\<rparr>"

definition Standard_check_result ::
  "'g StandardGrader_scheme \<Rightarrow> TestCase \<Rightarrow> Result \<Rightarrow> CheckerOutput exec" where
  "Standard_check_result g c r =
     (let checker = case_checker c in
      if result_flag r = 0 \<or> run_on_error checker then
        (let args = checker_args_of g c r
         in bind (emit (CheckerCall args)) (\<lambda>_.
              case call checker args of
                Inr check \<Rightarrow> ret check
              | Inl e \<Rightarrow>
                  if e = UnicodeDecodeError
                  then ret (Rich (CheckerResult False 0 (Some ''invalid unicode'') None))
                  else raise e))
      else ret (Plain False))"

text \<open>
  The end of \<open>StandardGrader.grade\<close> (lines 41-49): a boolean is converted to a
  \<open>CheckerResult\<close>, then the verdict flag is OR'd into the flags and the points and the
  feedback are taken from the checker's result.
\<close>

definition normalize :: "TestCase \<Rightarrow> CheckerOutput \<Rightarrow> CheckerResult" where
  "normalize c check =
     (case check of
        Rich cr \<Rightarrow> cr
      | Plain b \<Rightarrow> CheckerResult b (if b then case_points c else 0) None None)"

definition verdict_flag :: "flag_values \<Rightarrow> CheckerResult \<Rightarrow> int" where
  "verdict_flag fv cr = [WA fv, AC fv] ! (if passed cr then 1 else 0)"

definition merge_check :: "flag_values \<Rightarrow> Result \<Rightarrow> CheckerResult \<Rightarrow> Result" where
  "merge_check fv r cr =
     r\<lparr>result_flag := result_flag r OR verdict_flag fv cr,
       points := check_points cr,
       feedback := or_else (check_feedback cr) (feedback r),
       extended_feedback := or_else (check_extended_feedback cr) (extended_feedback r)\<rparr>"

text \<open>
  \<open>StandardGrader.grade\<close> (lines 25-53). The three steps that the interactive grader
  overrides are arguments; \<open>r0\<close> is the value of \<open>Result(case)\<close>. Lines 26-37 (launch,
  interact, populate) are \<open>run_and_populate\<close>, lines 39-53 follow in \<open>grade_with\<close>.
\<close>

definition run_and_populate ::
  "(TestCase \<Rightarrow> unit exec) \<Rightarrow> (TestCase \<Rightarrow> Result \<Rightarrow> (bytes \<times> Result) exec) \<Rightarrow>
   flag_values \<Rightarrow> 's sandbox_scheme \<Rightarrow> Result \<Rightarrow> TestCase \<Rightarrow> Result exec" where
  "run_and_populate launch_process interact_with_process fv sb r0 c =
     bind (launch_process c) (\<lambda>_.
     bind (interact_with_process c r0) (\<lambda>(err, r1).
     (\<lambda>w. case current_proc w of
            None \<Rightarrow> (Inl AssertionError, w)
          | Some p \<Rightarrow> populate_result fv sb err r1 p w)))"

definition grade_with ::
  "(TestCase \<Rightarrow> unit exec) \<Rightarrow> (TestCase \<Rightarrow> Result \<Rightarrow> (bytes \<times> Result) exec) \<Rightarrow>
   (TestCase \<Rightarrow> Result \<Rightarrow> CheckerOutput exec) \<Rightarrow>
   flag_values \<Rightarrow> 's sandbox_scheme \<Rightarrow> Result \<Rightarrow> TestCase \<Rightarrow> Result exec" where
  "grade_with launch_process interact_with_process check_result fv sb r0 c =
     bind (run_and_populate launch_process interact_with_process fv sb r0 c) (\<lambda>r2.
     bind (check_result c r2) (\<lambda>check.
     bind (emit FreeData) (\<lambda>_.
     ret (merge_check fv r2 (normalize c check)))))"

definition Standard_grade ::
  "flag_values \<Rightarrow> 's sandbox_scheme \<Rightarrow> 'g StandardGrader_scheme \<Rightarrow> Result \<Rightarrow> TestCase \<Rightarrow>
   Result exec" where
  "Standard_grade fv sb g =
     grade_with (Standard_launch_process sb g) (Standard_interact_with_process sb g)
       (Standard_check_result g) fv sb"

section \<open>BridgedInteractiveGrader\<close>

text \<open>
  The value of \<open>handler_data.files\<close> as \<open>_generate_interactor_binary\<close> inspects it: a
  string, an object with an \<open>unwrap\<close> method (whose result is a list or something
  else, such as a mapping), or a value that is neither (a missing entry reads as a plain
  falsy value, as the \<open>or\<close> defaults of lines 82-86 rely on, and has no \<open>unwrap\<close>).
\<close>

datatype unwrapped = UList "string list" | UMapping "(string \<times> string) list"

datatype files_entry = FilesStr string | FilesNode unwrapped | FilesPlain

record handler_data =
  h_files :: files_entry
  h_flags :: "string list option"
  h_unbuffered :: "bool option"
  h_lang :: string
  h_compiler_time_limit :: "real option"
  h_type :: "string option"
  h_feedback :: bool
  h_preprocessing_time :: "real option"
  h_memory_limit :: "nat option"
  h_args_format_string :: "string option"

datatype executor = Executor "string list" "string list" string

text \<open>The arguments the protocol adapter's \<open>parse_return_code\<close> receives (lines 48-57).\<close>

record parse_args =
  pa_max_points :: real
  pa_time_limit :: real
  pa_memory_limit :: nat
  pa_feedback :: string
  pa_name :: string
  pa_stderr :: bytes

record adapter =
  parse_return_code :: "parse_args \<Rightarrow> error + CheckerOutput"
  get_interactor_args_format_string :: string

text \<open>
  The judge environment, none of it under src/: the registry \<open>contrib_modules\<close>,
  \<open>get_problem_root\<close>, \<open>compile_with_auxiliary_files\<close> (it returns the binary or raises),
  \<open>env['generator_memory_limit']\<close> and \<open>utf8text\<close>.
\<close>

record judgeenv =
  contrib_modules :: "string \<Rightarrow> adapter option"
  get_problem_root :: "string \<Rightarrow> string option"
  compile_with_auxiliary_files ::
    "string list \<Rightarrow> string list \<Rightarrow> string \<Rightarrow> real option \<Rightarrow> bool \<Rightarrow> error + executor"
  generator_memory_limit :: nat
  utf8text :: "bytes \<Rightarrow> string"

text \<open>
  The sandbox as the interactive grader sees it, in addition: what \<open>to_path\<close> of the
  input returns, what splitting the formatted argument template gives (template, input
  path, output path, answer path), whether launching the interactor raises, what the
  interactor writes to its standard error, and the name of the next temporary file.
\<close>

record interactive_sandbox = sandbox +
  to_path :: "error + string"
  format_args :: "string \<Rightarrow> string \<Rightarrow> string \<Rightarrow> string \<Rightarrow> error + string list"
  interactor_launch_error :: "error option"
  interactor_stderr :: bytes
  tmp_name :: string

record BridgedInteractiveGrader = StandardGrader +
  handler_data :: handler_data
  interactor_binary :: executor
  contrib_type :: string

text \<open>\<open>os.path.join\<close> of two POSIX paths.\<close>

definition path_join :: "string \<Rightarrow> string \<Rightarrow> string" where
  "path_join a b =
     (if b \<noteq> [] \<and> hd b = CHR ''/'' then b
      else if a = [] \<or> last a = CHR ''/'' then a @ b
      else a @ ''/'' @ b)"

text \<open>
  \<open>BridgedInteractiveGrader._generate_interactor_binary\<close> (lines 121-134). The local
  \<open>filenames\<close> is assigned in the two branches of lines 123-126 only: \<open>None\<close> stands for
  the unassigned local, whose use in line 129 raises.
\<close>

definition generate_interactor_binary ::
  "judgeenv \<Rightarrow> string \<Rightarrow> handler_data \<Rightarrow> error + executor" where
  "generate_interactor_binary E pid cfg =
     (case (case h_files cfg of
              FilesStr s \<Rightarrow> Inr (Some [s])
            | FilesNode (UList fs) \<Rightarrow> Inr (Some fs)
            | FilesNode (UMapping m) \<Rightarrow> Inr None
            | FilesPlain \<Rightarrow> Inl (AttributeError ''unwrap'')) of
        Inl e \<Rightarrow> Inl e
      | Inr filenames \<Rightarrow>
          (case get_problem_root E pid of
             None \<Rightarrow> Inl AssertionError
           | Some problem_root \<Rightarrow>
               (case filenames of
                  None \<Rightarrow> Inl (UnboundLocalError ''filenames'')
                | Some fs \<Rightarrow>
                    compile_with_auxiliary_files E (map (path_join problem_root) fs)
                      (case h_flags cfg of None \<Rightarrow> [] | Some fl \<Rightarrow> fl)
                      (h_lang cfg) (h_compiler_time_limit cfg)
                      (case h_unbuffered cfg of None \<Rightarrow> True | Some u \<Rightarrow> u))))"

text \<open>
  \<open>BridgedInteractiveGrader.__init__\<close> (lines 28-40). \<open>super_init\<close> is what
  \<open>super().__init__\<close> does (the base class is not under src/): it raises, or it leaves the
  attributes of the base class; \<open>cfg\<close> is \<open>problem.config.interactive\<close>.
\<close>

definition Bridged_init ::
  "judgeenv \<Rightarrow> error + StandardGrader \<Rightarrow> handler_data \<Rightarrow> error + BridgedInteractiveGrader" where
  "Bridged_init E super_init cfg =
     (case super_init of
        Inl e \<Rightarrow> Inl e
      | Inr g \<Rightarrow>
          (case generate_interactor_binary E (problem_id g) cfg of
             Inl e \<Rightarrow>
               (case e of
                  CompileError m \<Rightarrow> Inl (InternalError ''interactor failed compiling'')
                | _ \<Rightarrow> Inl e)
           | Inr bin \<Rightarrow>
               (let ct = (case h_type cfg of None \<Rightarrow> ''default'' | Some t \<Rightarrow> t) in
                if contrib_modules E ct = None
                then Inl (InternalError (ct @ '' is not a valid contrib module''))
                else Inr (StandardGrader.extend g
                       (BridgedInteractiveGrader.fields cfg bin ct)))))"

text \<open>
  \<open>os.pipe\<close> hands out two fresh descriptors, the read end first; \<open>os.close\<close> releases
  a descriptor the judge holds and fails on any other.
\<close>

definition os_pipe :: "(nat \<times> nat) exec" where
  "os_pipe w =
     (Inr (next_fd w, next_fd w + 1),
      w\<lparr>open_fds := open_fds w @ [next_fd w, next_fd w + 1],
        next_fd := next_fd w + 2,
        trace := trace w @ [PipeCreated (next_fd w) (next_fd w + 1)]\<rparr>)"

definition os_close :: "nat \<Rightarrow> unit exec" where
  "os_close fd w =
     (if fd \<in> set (open_fds w)
      then (Inr (), w\<lparr>open_fds := removeAll fd (open_fds w), trace := trace w @ [Close fd]\<rparr>)
      else (Inl (OtherError ''EBADF''), w))"

text \<open>
  Modelled from the spec: \<open>mktemp\<close> of \<open>dmoj.utils.helper_files\<close> is not under src/. Used
  in a \<open>with\<close> statement it gives a temporary file holding the given bytes, scoped to the
  block and deleted on every exit from it.
\<close>

definition with_mktemp :: "string \<Rightarrow> bytes \<Rightarrow> (string \<Rightarrow> 'a exec) \<Rightarrow> 'a exec" where
  "with_mktemp name content body w =
     (case body name (w\<lparr>temp_files := name # temp_files w,
                        trace := trace w @ [TempCreated name]\<rparr>) of
        (res, w') \<Rightarrow>
          (res, w'\<lparr>temp_files := removeAll name (temp_files w'),
                   trace := trace w' @ [TempDeleted name]\<rparr>))"

text \<open>\<open>BridgedInteractiveGrader._launch_process\<close> (lines 61-74).\<close>

definition Bridged_launch_process ::
  "'s sandbox_scheme \<Rightarrow> 'g BridgedInteractiveGrader_scheme \<Rightarrow> TestCase \<Rightarrow> unit exec" where
  "Bridged_launch_process sb g c =
     bind os_pipe (\<lambda>(interactor_stdin, submission_stdout).
     bind os_pipe (\<lambda>(submission_stdin, interactor_stdout).
     bind (\<lambda>w. (Inr (), w\<lparr>interactor_stdin_pipe := interactor_stdin,
                           interactor_stdout_pipe := interactor_stdout\<rparr>)) (\<lambda>_.
     bind (\<lambda>w. case launch_error sb of
                 Some e \<Rightarrow> (Inl e, w)
               | None \<Rightarrow> (Inr (), w\<lparr>current_proc := Some Submission,
                                     trace := trace w @ [Launch Submission]\<rparr>)) (\<lambda>_.
     bind (os_close submission_stdin) (\<lambda>_.
     os_close submission_stdout)))))"

text \<open>
  Lines 84-87: the configured template, or else the default of the adapter
  (\<open>contrib_modules[self.contrib_type]\<close>, looked up only when the configured one is falsy).
\<close>

definition resolve_args_format_string ::
  "judgeenv \<Rightarrow> 'g BridgedInteractiveGrader_scheme \<Rightarrow> error + string" where
  "resolve_args_format_string E g =
     (let adapter_default =
            (case contrib_modules E (contrib_type g) of
               None \<Rightarrow> Inl (KeyError (contrib_type g))
             | Some a \<Rightarrow> Inr (get_interactor_args_format_string a))
      in case h_args_format_string (handler_data g) of
           None \<Rightarrow> adapter_default
         | Some s \<Rightarrow> if s = [] then adapter_default else Inr s)"

text \<open>\<open>BridgedInteractiveGrader._interact_with_process\<close> (lines 76-119).\<close>

definition Bridged_interact_with_process ::
  "judgeenv \<Rightarrow> 's interactive_sandbox_scheme \<Rightarrow> 'g BridgedInteractiveGrader_scheme \<Rightarrow>
   TestCase \<Rightarrow> Result \<Rightarrow> (bytes \<times> Result) exec" where
  "Bridged_interact_with_process E sb g c r w =
     (case current_proc w of
        None \<Rightarrow> (Inl AssertionError, w)
      | Some p \<Rightarrow>
          (let judge_output = output_data c;
               tl = (case h_preprocessing_time (handler_data g) of
                       None \<Rightarrow> 2 | Some t \<Rightarrow> if t = 0 then 2 else t) + time_limit g;
               ml = (case h_memory_limit (handler_data g) of
                       None \<Rightarrow> generator_memory_limit E
                     | Some m \<Rightarrow> if m = 0 then generator_memory_limit E else m);
               w1 = w\<lparr>interactor_time_limit := tl, interactor_memory_limit := ml\<rparr>
           in case resolve_args_format_string E g of
             Inl e \<Rightarrow> (Inl e, w1)
           | Inr args_format_string \<Rightarrow>
               with_mktemp (tmp_name sb) judge_output (\<lambda>answer_file.
                 bind (\<lambda>w. (to_path sb, w)) (\<lambda>input_path.
                 bind (\<lambda>w. (format_args sb args_format_string input_path ''/dev/null''
                               answer_file, w)) (\<lambda>interactor_args.
                 bind (\<lambda>w. case interactor_launch_error sb of
                             Some e \<Rightarrow> (Inl e, w)
                           | None \<Rightarrow> (Inr (), w\<lparr>interactor := Some Interactor,
                                                 trace := trace w @ [Launch Interactor]\<rparr>)) (\<lambda>_.
                 bind (\<lambda>w. os_close (interactor_stdin_pipe w) w) (\<lambda>_.
                 bind (\<lambda>w. os_close (interactor_stdout_pipe w) w) (\<lambda>_.
                 bind (wait p) (\<lambda>_.
                 bind (wait Interactor) (\<lambda>_.
                 ret (sub_stderr sb, r))))))))) w1))"

text \<open>\<open>BridgedInteractiveGrader.check_result\<close> (lines 42-59).\<close>

definition parse_args_of ::
  "judgeenv \<Rightarrow> 's interactive_sandbox_scheme \<Rightarrow> 'g BridgedInteractiveGrader_scheme \<Rightarrow>
   TestCase \<Rightarrow> world \<Rightarrow> parse_args" where
  "parse_args_of E sb g c w =
     \<lparr>pa_max_points = case_points c,
      pa_time_limit = interactor_time_limit w,
      pa_memory_limit = interactor_memory_limit w,
      pa_feedback = (if h_feedback (handler_data g) then utf8text E (interactor_stderr sb)
                     else []),
      pa_name = ''interactor'',
      pa_stderr = interactor_stderr sb\<rparr>"

definition Bridged_check_result ::
  "judgeenv \<Rightarrow> 's interactive_sandbox_scheme \<Rightarrow> 'g BridgedInteractiveGrader_scheme \<Rightarrow>
   TestCase \<Rightarrow> Result \<Rightarrow> CheckerOutput exec" where
  "Bridged_check_result E sb g c r w =
     (case interactor w of
        None \<Rightarrow> (Inl (AttributeError ''_interactor''), w)
      | Some i \<Rightarrow>
          (case contrib_modules E (contrib_type g) of
             None \<Rightarrow> (Inl (KeyError (contrib_type g)), w)
           | Some a \<Rightarrow>
               bind (emit ParseReturnCode) (\<lambda>_.
               case parse_return_code a (parse_args_of E sb g c w) of
                 Inl e \<Rightarrow> raise e
               | Inr parsed_result \<Rightarrow>
                   ret (if result_flag r \<noteq> 0 then Plain False else parsed_result)) w))"

definition Bridged_grade ::
  "flag_values \<Rightarrow> judgeenv \<Rightarrow> 's interactive_sandbox_scheme \<Rightarrow>
   'g BridgedInteractiveGrader_scheme \<Rightarrow> Result \<Rightarrow> TestCase \<Rightarrow> Result exec" where
  "Bridged_grade fv E sb g =
     grade_with (Bridged_launch_process sb g) (Bridged_interact_with_process E sb g)
       (Bridged_check_result E sb g) fv sb"

section \<open>Reading the log\<close>

text \<open>The interactor's ceilings, as lines 82-83 store them on the grader.\<close>

definition interactor_limits ::
  "judgeenv \<Rightarrow> 'g BridgedInteractiveGrader_scheme \<Rightarrow> world \<Rightarrow> world" where
  "interactor_limits E g w =
     w\<lparr>interactor_time_limit :=
         (case h_preprocessing_time (handler_data g) of
            None \<Rightarrow> 2 | Some t \<Rightarrow> if t = 0 then 2 else t) + time_limit g,
       interactor_memory_limit :=
         (case h_memory_limit (handler_data g) of
            None \<Rightarrow> generator_memory_limit E
          | Some m \<Rightarrow> if m = 0 then generator_memory_limit E else m)\<rparr>"

fun checker_invocations :: "event list \<Rightarrow> checker_args list" where
  "checker_invocations [] = []"
| "checker_invocations (CheckerCall args # evs) = args # checker_invocations evs"
| "checker_invocations (ev # evs) = checker_invocations evs"

text \<open>
  Whether \<open>_interact_with_process\<close> gets as far as launching the interactor: the
  argument template is resolved, the input path and the arguments are obtained, and the
  launch itself does not raise (lines 84-111).
\<close>

definition interactor_launches ::
  "judgeenv \<Rightarrow> 's interactive_sandbox_scheme \<Rightarrow> 'g BridgedInteractiveGrader_scheme \<Rightarrow> bool" where
  "interactor_launches E sb g =
     (case resolve_args_format_string E g of
        Inl e \<Rightarrow> False
      | Inr afs \<Rightarrow>
          (case to_path sb of
             Inl e \<Rightarrow> False
           | Inr input_path \<Rightarrow>
               (case format_args sb afs input_path ''/dev/null'' (tmp_name sb) of
                  Inl e \<Rightarrow> False
                | Inr interactor_args \<Rightarrow> interactor_launch_error sb = None)))"

text \<open>
  The calls that compute the verdict: populating the Result, calling the checker, asking
  the protocol adapter. A list of calls is verdict-free when it holds none of them; a world
  extends a log verdict-free when its own log is that log followed by verdict-free calls.
\<close>

fun verdict_event :: "event \<Rightarrow> bool" where
  "verdict_event PopulateResult = True"
| "verdict_event (CheckerCall args) = True"
| "verdict_event ParseReturnCode = True"
| "verdict_event ev = False"

definition verdict_free :: "event list \<Rightarrow> bool" where
  "verdict_free evs = list_all (\<lambda>ev. \<not> verdict_event ev) evs"

definition extends_verdict_free :: "event list \<Rightarrow> world \<Rightarrow> bool" where
  "extends_verdict_free t u =
     (take (length t) (trace u) = t \<and> verdict_free (drop (length t) (trace u)))"

text \<open>No descriptor the judge holds is one that \<open>os.pipe\<close> will hand out later.\<close>

definition fds_fresh :: "world \<Rightarrow> bool" where
  "fds_fresh w = list_all (\<lambda>fd. fd < next_fd w) (open_fds w)"

section \<open>Concrete inputs\<close>

definition flags0 :: flag_values where
  "flags0 = \<lparr>AC = 0, WA = 1, OLE = 64\<rparr>"

definition world0 :: world where
  "world0 = \<lparr>open_fds = [], next_fd = 3, temp_files = [], terminated = [], ole_marked = [],
     fsize = 0, current_proc = None, interactor = None, interactor_stdin_pipe = 0,
     interactor_stdout_pipe = 0, interactor_time_limit = 0, interactor_memory_limit = 0,
     trace = []\<rparr>"

definition result0 :: Result where
  "result0 = \<lparr>result_flag = 0, points = 0, feedback = [], extended_feedback = [],
     proc_output = [], execution_time = 0\<rparr>"

definition grader0 :: StandardGrader where
  "grader0 = \<lparr>source = ''print(1)'', language = ''PY3'', problem_id = ''aplusb'',
     time_limit = 1, memory_limit = 65536, memfd_output = True, orig_fsize = 0\<rparr>"

definition sandbox0 :: sandbox where
  "sandbox0 = \<lparr>launch_error = None, sub_stdout = ''3'', sub_stderr = [], sub_flags = 0,
     sub_time = 0\<rparr>"

text \<open>Checkers: one that returns a fixed value, one that raises a fixed error.\<close>

definition const_checker :: "bool \<Rightarrow> CheckerOutput \<Rightarrow> checker" where
  "const_checker roe out = \<lparr>run_on_error = roe, call = (\<lambda>_. Inr out)\<rparr>"

definition raising_checker :: "bool \<Rightarrow> error \<Rightarrow> checker" where
  "raising_checker roe e = \<lparr>run_on_error = roe, call = (\<lambda>_. Inl e)\<rparr>"

definition case0 :: "checker \<Rightarrow> TestCase" where
  "case0 ch = \<lparr>case_points = 100, position = 1, batch = 0, input_data = ''1 2'',
     output_data = ''3'', has_binary_data = False, output_limit_length = 4,
     case_checker = ch\<rparr>"

text \<open>The interactive side: a registry with the single adapter \<open>default\<close>.\<close>

definition adapter0 :: "CheckerOutput \<Rightarrow> adapter" where
  "adapter0 out =
     \<lparr>parse_return_code = (\<lambda>_. Inr out),
      get_interactor_args_format_string = ''{input_file} {output_file} {answer_file}''\<rparr>"

definition judgeenv0 :: "CheckerOutput \<Rightarrow> (string list \<Rightarrow> error + executor) \<Rightarrow> judgeenv" where
  "judgeenv0 out compile =
     \<lparr>contrib_modules = (\<lambda>n. if n = ''default'' then Some (adapter0 out) else None),
      get_problem_root = (\<lambda>pid. Some (''/problems/'' @ pid)),
      compile_with_auxiliary_files = (\<lambda>fs fl lang tl unbuf. compile fs),
      generator_memory_limit = 262144,
      utf8text = (\<lambda>b. b)\<rparr>"

definition handler0 :: "files_entry \<Rightarrow> string option \<Rightarrow> handler_data" where
  "handler0 fs ty =
     \<lparr>h_files = fs, h_flags = None, h_unbuffered = None, h_lang = ''CPP17'',
      h_compiler_time_limit = None, h_type = ty, h_feedback = True,
      h_preprocessing_time = None, h_memory_limit = None, h_args_format_string = None\<rparr>"

definition compile_ok :: "string list \<Rightarrow> error + executor" where
  "compile_ok fs = Inr (Executor fs [] ''CPP17'')"

definition compile_fails :: "string list \<Rightarrow> error + executor" where
  "compile_fails fs = Inl (CompileError ''interactor.cpp:1: error'')"

text \<open>A judge environment whose adapter raises when it parses the return code.\<close>

definition judgeenv_raising :: "error \<Rightarrow> judgeenv" where
  "judgeenv_raising e =
     (judgeenv0 (Plain True) compile_ok)
       \<lparr>contrib_modules := (\<lambda>n. if n = ''default''
            then Some ((adapter0 (Plain True))\<lparr>parse_return_code := (\<lambda>_. Inl e)\<rparr>)
            else None)\<rparr>"

definition isandbox0 :: "error option \<Rightarrow> interactive_sandbox" where
  "isandbox0 ile =
     \<lparr>launch_error = None, sub_stdout = [], sub_stderr = [], sub_flags = 0, sub_time = 0,
      to_path = Inr ''/tmp/input'',
      format_args = (\<lambda>t i out a. Inr [i, out, a]),
      interactor_launch_error = ile,
      interactor_stderr = ''ok'',
      tmp_name = ''/tmp/answer''\<rparr>"

definition bgrader0 :: BridgedInteractiveGrader where
  "bgrader0 = StandardGrader.extend grader0
     (BridgedInteractiveGrader.fields (handler0 (FilesStr ''interactor.cpp'') None)
        (Executor [''/problems/aplusb/interactor.cpp''] [] ''CPP17'') ''default'')"

section \<open>Helper lemmas\<close>

lemma bind_Inr_iff:
  "bind m f w = (Inr y, w') \<longleftrightarrow> (\<exists>x w1. m w = (Inr x, w1) \<and> f x w1 = (Inr y, w'))"
  by (auto simp: bind_def split: prod.splits sum.splits)

lemma grade_with_Inr:
  "grade_with L I C fv sb r0 c w = (Inr res, w') \<longleftrightarrow>
     (\<exists>r2 w2 check w3. run_and_populate L I fv sb r0 c w = (Inr r2, w2) \<and>
        C c r2 w2 = (Inr check, w3) \<and>
        res = merge_check fv r2 (normalize c check) \<and>
        w' = w3\<lparr>trace := trace w3 @ [FreeData]\<rparr>)"
  by (auto simp: grade_with_def bind_Inr_iff emit_def ret_def)

lemma grade_with_fst_Inr:
  assumes "fst (grade_with L I C fv sb r0 c w) = Inr res"
  shows "\<exists>r2 check. fst (run_and_populate L I fv sb r0 c w) = Inr r2 \<and>
           fst (C c r2 (snd (run_and_populate L I fv sb r0 c w))) = Inr check \<and>
           res = merge_check fv r2 (normalize c check)"
proof -
  obtain w' where "grade_with L I C fv sb r0 c w = (Inr res, w')"
    using assms by (cases "grade_with L I C fv sb r0 c w") simp
  then obtain r2 w2 check w3 where
    "run_and_populate L I fv sb r0 c w = (Inr r2, w2)" "C c r2 w2 = (Inr check, w3)"
    "res = merge_check fv r2 (normalize c check)"
    unfolding grade_with_Inr by blast
  then show ?thesis by auto
qed

lemma grade_with_forward:
  assumes "run_and_populate L I fv sb r0 c w = (Inr r2, w2)"
    and "C c r2 w2 = (Inr check, w3)"
  shows "grade_with L I C fv sb r0 c w =
           (Inr (merge_check fv r2 (normalize c check)), w3\<lparr>trace := trace w3 @ [FreeData]\<rparr>)"
  using assms by (simp add: grade_with_def bind_def emit_def ret_def)

lemma verdict_flag_eq: "verdict_flag fv cr = (if passed cr then AC fv else WA fv)"
  by (simp add: verdict_flag_def)

lemma Standard_check_result_skip:
  "result_flag r \<noteq> 0 \<Longrightarrow> \<not> run_on_error (case_checker c) \<Longrightarrow>
   Standard_check_result g c r w = (Inr (Plain False), w)"
  by (simp add: Standard_check_result_def ret_def)

lemma checker_invocations_append:
  "checker_invocations (xs @ ys) = checker_invocations xs @ checker_invocations ys"
  by (induction xs rule: checker_invocations.induct) simp_all

lemma Standard_check_result_run:
  "result_flag r = 0 \<or> run_on_error (case_checker c) \<Longrightarrow>
   Standard_check_result g c r w =
     ((case call (case_checker c) (checker_args_of g c r) of
         Inr check \<Rightarrow> Inr check
       | Inl e \<Rightarrow> if e = UnicodeDecodeError
                 then Inr (Rich (CheckerResult False 0 (Some ''invalid unicode'') None))
                 else Inl e),
      w\<lparr>trace := trace w @ [CheckerCall (checker_args_of g c r)]\<rparr>)"
  by (auto simp: Standard_check_result_def Let_def bind_def emit_def ret_def raise_def
           split: sum.splits)

lemma Bridged_check_result_Inr:
  assumes "fst (Bridged_check_result E sb g c r w) = Inr check"
  shows "\<exists>a out. contrib_modules E (contrib_type g) = Some a \<and>
           parse_return_code a (parse_args_of E sb g c w) = Inr out \<and>
           check = (if result_flag r \<noteq> 0 then Plain False else out)"
  using assms
  by (auto simp: Bridged_check_result_def bind_def emit_def ret_def raise_def
           split: option.splits sum.splits)

lemma normalize_Plain:
  "normalize c (Plain b) = CheckerResult b (if b then case_points c else 0) None None"
  by (simp add: normalize_def)


text \<open>The equations that evaluate the graders on the concrete inputs.\<close>

lemmas standard_eval = Standard_grade_def grade_with_def run_and_populate_def
  Standard_launch_process_def Standard_interact_with_process_def Standard_check_result_def
  checker_args_of_def populate_result_def bind_def ret_def raise_def emit_def wait_def
  mark_ole_def kill_def communicate_def normalize_def merge_check_def verdict_flag_def
  or_else_def flags0_def world0_def result0_def grader0_def sandbox0_def const_checker_def
  raising_checker_def case0_def Let_def

lemmas bridged_eval = Bridged_check_result_def parse_args_of_def judgeenv0_def adapter0_def
  isandbox0_def bgrader0_def handler0_def StandardGrader.extend_def
  BridgedInteractiveGrader.fields_def bind_def ret_def raise_def emit_def world0_def
  result0_def case0_def const_checker_def

section \<open>Points of a graded case\<close>

text \<open>
  C1 as stated (the final points never exceed the point value of the case, and are 0
  whenever the checker's judgment did not pass) fails for a checker that returns a rich
  \<open>CheckerResult\<close>: its points are copied unchanged. A checker awarding 200 points on a
  case worth 100 leaves 200 on the Result, and a failing judgment carrying 5 points leaves 5.
\<close>

theorem grade_points_counterexample:
  "fst (Standard_grade flags0 sandbox0 grader0 result0
          (case0 (const_checker False (Rich (CheckerResult True 200 None None)))) world0) =
     Inr \<lparr>result_flag = 0, points = 200, feedback = [], extended_feedback = [],
          proc_output = ''3'', execution_time = 0\<rparr> \<and>
   \<not> (200 \<le> case_points (case0 (const_checker False (Rich (CheckerResult True 200 None None))))) \<and>
   fst (Standard_grade flags0 sandbox0 grader0 result0
          (case0 (const_checker False (Rich (CheckerResult False 5 None None)))) world0) =
     Inr \<lparr>result_flag = 1, points = 5, feedback = [], extended_feedback = [],
          proc_output = ''3'', execution_time = 0\<rparr>"
  by (simp add: standard_eval)

text \<open>
  C1, amended: the final points are the points of the normalized checker result. For a
  boolean checker outcome they are the point value of the case when it is true and 0 when
  it is false, hence at most the (non-negative) point value of the case and 0 when the
  judgment did not pass; for a rich \<open>CheckerResult\<close> they are that result's points,
  copied unchanged. This holds for both graders, which share the end of \<open>grade\<close>.
\<close>

theorem grade_points_from_checker:
  assumes "fst (grade_with L I C fv sb r0 c w) = Inr res"
  shows "\<exists>r2 check.
           fst (run_and_populate L I fv sb r0 c w) = Inr r2 \<and>
           fst (C c r2 (snd (run_and_populate L I fv sb r0 c w))) = Inr check \<and>
           points res = check_points (normalize c check) \<and>
           (case check of
              Plain b \<Rightarrow>
                points res = (if b then case_points c else 0) \<and>
                (0 \<le> case_points c \<longrightarrow> points res \<le> case_points c) \<and>
                (\<not> passed (normalize c check) \<longrightarrow> points res = 0)
            | Rich cr \<Rightarrow> points res = check_points cr)"
proof -
  from grade_with_fst_Inr[OF assms] obtain r2 check where
    a: "fst (run_and_populate L I fv sb r0 c w) = Inr r2"
    and b: "fst (C c r2 (snd (run_and_populate L I fv sb r0 c w))) = Inr check"
    and c: "res = merge_check fv r2 (normalize c check)"
    by blast
  have "points res = check_points (normalize c check)"
    using c by (simp add: merge_check_def)
  moreover have "case check of
              Plain b \<Rightarrow>
                points res = (if b then case_points c else 0) \<and>
                (0 \<le> case_points c \<longrightarrow> points res \<le> case_points c) \<and>
                (\<not> passed (normalize c check) \<longrightarrow> points res = 0)
            | Rich cr \<Rightarrow> points res = check_points cr"
    using c by (cases check) (simp_all add: merge_check_def normalize_def)
  ultimately show ?thesis using a b by blast
qed

theorem grade_points_from_checker_witness:
  "fst (grade_with (Standard_launch_process sandbox0 grader0)
          (Standard_interact_with_process sandbox0 grader0) (Standard_check_result grader0)
          flags0 sandbox0 result0 (case0 (const_checker False (Plain True))) world0) =
     Inr \<lparr>result_flag = 0, points = 100, feedback = [], extended_feedback = [],
          proc_output = ''3'', execution_time = 0\<rparr> \<and>
   (\<exists>r2 check.
      fst (run_and_populate (Standard_launch_process sandbox0 grader0)
             (Standard_interact_with_process sandbox0 grader0) flags0 sandbox0 result0
             (case0 (const_checker False (Plain True))) world0) = Inr r2 \<and>
      fst (Standard_check_result grader0 (case0 (const_checker False (Plain True))) r2
             (snd (run_and_populate (Standard_launch_process sandbox0 grader0)
                     (Standard_interact_with_process sandbox0 grader0) flags0 sandbox0 result0
                     (case0 (const_checker False (Plain True))) world0))) = Inr check \<and>
      (100::real) = check_points (normalize (case0 (const_checker False (Plain True))) check))"
proof -
  have h: "fst (grade_with (Standard_launch_process sandbox0 grader0)
          (Standard_interact_with_process sandbox0 grader0) (Standard_check_result grader0)
          flags0 sandbox0 result0 (case0 (const_checker False (Plain True))) world0) =
     Inr \<lparr>result_flag = 0, points = 100, feedback = [], extended_feedback = [],
          proc_output = ''3'', execution_time = 0\<rparr>"
    by (simp add: standard_eval)
  from grade_points_from_checker[OF h] show ?thesis
    using h by fastforce
qed

section \<open>Whether the checker runs\<close>

text \<open>
  C2: when the Result already carries a failure flag and the checker does not declare
  \<open>run_on_error\<close>, \<open>check_result\<close> does not invoke the checker (the world, and with it
  the log of checker invocations, is unchanged) and its outcome is the boolean False, which
  normalizes to a failing result with 0 points. When the flag is clear or \<open>run_on_error\<close>
  is set, the checker is invoked, once, on the arguments built from the case and the
  Result, and the outcome of \<open>check_result\<close> is what that call of the checker returned
  (its error, when it raised one other than a decoding failure).
\<close>

theorem check_result_gate:
  "(result_flag r \<noteq> 0 \<and> \<not> run_on_error (case_checker c) \<longrightarrow>
      Standard_check_result g c r w = (Inr (Plain False), w) \<and>
      checker_invocations (trace (snd (Standard_check_result g c r w))) =
        checker_invocations (trace w) \<and>
      normalize c (Plain False) = CheckerResult False 0 None None) \<and>
   (result_flag r = 0 \<or> run_on_error (case_checker c) \<longrightarrow>
      Standard_check_result g c r w =
        ((case call (case_checker c) (checker_args_of g c r) of
            Inr check \<Rightarrow> Inr check
          | Inl e \<Rightarrow> if e = UnicodeDecodeError
                    then Inr (Rich (CheckerResult False 0 (Some ''invalid unicode'') None))
                    else Inl e),
         w\<lparr>trace := trace w @ [CheckerCall (checker_args_of g c r)]\<rparr>) \<and>
      checker_invocations (trace (snd (Standard_check_result g c r w))) =
        checker_invocations (trace w) @ [checker_args_of g c r])"
  by (simp add: Standard_check_result_skip Standard_check_result_run
        checker_invocations_append normalize_def)

theorem check_result_gate_witness:
  "result_flag (result0\<lparr>result_flag := 2\<rparr>) \<noteq> 0 \<and>
   \<not> run_on_error (case_checker (case0 (const_checker False (Plain True)))) \<and>
   Standard_check_result grader0 (case0 (const_checker False (Plain True)))
     (result0\<lparr>result_flag := 2\<rparr>) world0 = (Inr (Plain False), world0) \<and>
   run_on_error (case_checker (case0 (const_checker True (Plain True)))) \<and>
   Standard_check_result grader0 (case0 (const_checker True (Plain True)))
     (result0\<lparr>result_flag := 2\<rparr>) world0 =
     (Inr (Plain True),
      world0\<lparr>trace := [CheckerCall (checker_args_of grader0
          (case0 (const_checker True (Plain True))) (result0\<lparr>result_flag := 2\<rparr>))]\<rparr>) \<and>
   checker_invocations (trace (snd (Standard_check_result grader0
       (case0 (const_checker True (Plain True))) (result0\<lparr>result_flag := 2\<rparr>) world0))) =
     [checker_args_of grader0 (case0 (const_checker True (Plain True)))
        (result0\<lparr>result_flag := 2\<rparr>)]"
  using check_result_gate[where r = "result0\<lparr>result_flag := 2\<rparr>"
          and c = "case0 (const_checker False (Plain True))" and g = grader0 and w = world0]
        check_result_gate[where r = "result0\<lparr>result_flag := 2\<rparr>"
          and c = "case0 (const_checker True (Plain True))" and g = grader0 and w = world0]
  by (simp add: result0_def case0_def const_checker_def world0_def)

section \<open>The verdict flag\<close>

text \<open>
  C3 as stated (the flag OR'd in at the end of \<open>grade\<close> is AC exactly when the submission
  did not already fail and the checker's judgment passed) fails in the standard grader for
  a checker that declares \<open>run_on_error\<close>: it is invoked on a submission that already
  failed, and when it returns True the flag picked is AC and the case is worth full points.
\<close>

theorem verdict_flag_counterexample:
  "result_flag (result0\<lparr>result_flag := 2\<rparr>) \<noteq> 0 \<and>
   fst (Standard_check_result grader0 (case0 (const_checker True (Plain True)))
          (result0\<lparr>result_flag := 2\<rparr>) world0) = Inr (Plain True) \<and>
   verdict_flag flags0 (normalize (case0 (const_checker True (Plain True))) (Plain True)) =
     AC flags0 \<and>
   AC flags0 \<noteq> WA flags0 \<and>
   fst (Standard_grade flags0 (sandbox0\<lparr>sub_flags := 2\<rparr>) grader0 result0
          (case0 (const_checker True (Plain True))) world0) =
     Inr \<lparr>result_flag = 2, points = 100, feedback = [], extended_feedback = [],
          proc_output = ''3'', execution_time = 0\<rparr>"
  by (simp add: standard_eval)

text \<open>
  C3, amended: the flag OR'd into the Result at the end of \<open>grade\<close> is AC when the
  normalized checker result passed and WA otherwise; True normalizes to a passing result
  worth the point value of the case and False to a failing result worth 0. In the standard
  grader the normalized result passed exactly when the checker was run (the submission had
  not failed, or the checker declares \<open>run_on_error\<close>) and its judgment passed. In the
  interactive grader it passed exactly when the submission had not failed and the
  judgment of the protocol adapter passed.
\<close>

theorem verdict_flag_merged:
  "verdict_flag fv cr = (if passed cr then AC fv else WA fv) \<and>
   normalize c (Plain True) = CheckerResult True (case_points c) None None \<and>
   normalize c (Plain False) = CheckerResult False 0 None None \<and>
   (\<forall>res. fst (grade_with L I C fv sb r0 c w) = Inr res \<longrightarrow>
      (\<exists>r2 check.
         fst (run_and_populate L I fv sb r0 c w) = Inr r2 \<and>
         fst (C c r2 (snd (run_and_populate L I fv sb r0 c w))) = Inr check \<and>
         result_flag res =
           result_flag r2 OR (if passed (normalize c check) then AC fv else WA fv))) \<and>
   (\<forall>check. fst (Standard_check_result g c r w1) = Inr check \<longrightarrow>
      (passed (normalize c check) \<longleftrightarrow>
         (result_flag r = 0 \<or> run_on_error (case_checker c)) \<and>
         (\<exists>out. call (case_checker c) (checker_args_of g c r) = Inr out \<and>
                passed (normalize c out)))) \<and>
   (\<forall>check. fst (Bridged_check_result E isb bg c r w2) = Inr check \<longrightarrow>
      (passed (normalize c check) \<longleftrightarrow>
         result_flag r = 0 \<and>
         (\<exists>a out. contrib_modules E (contrib_type bg) = Some a \<and>
                  parse_return_code a (parse_args_of E isb bg c w2) = Inr out \<and>
                  passed (normalize c out))))"
proof -
  have g: "\<forall>res. fst (grade_with L I C fv sb r0 c w) = Inr res \<longrightarrow>
      (\<exists>r2 check.
         fst (run_and_populate L I fv sb r0 c w) = Inr r2 \<and>
         fst (C c r2 (snd (run_and_populate L I fv sb r0 c w))) = Inr check \<and>
         result_flag res =
           result_flag r2 OR (if passed (normalize c check) then AC fv else WA fv))"
  proof (intro allI impI)
    fix res assume "fst (grade_with L I C fv sb r0 c w) = Inr res"
    from grade_with_fst_Inr[OF this] obtain r2 check where
      "fst (run_and_populate L I fv sb r0 c w) = Inr r2"
      "fst (C c r2 (snd (run_and_populate L I fv sb r0 c w))) = Inr check"
      "res = merge_check fv r2 (normalize c check)" by blast
    then show "\<exists>r2 check.
         fst (run_and_populate L I fv sb r0 c w) = Inr r2 \<and>
         fst (C c r2 (snd (run_and_populate L I fv sb r0 c w))) = Inr check \<and>
         result_flag res =
           result_flag r2 OR (if passed (normalize c check) then AC fv else WA fv)"
      by (auto simp: merge_check_def verdict_flag_eq)
  qed
  have s: "\<forall>check. fst (Standard_check_result g c r w1) = Inr check \<longrightarrow>
      (passed (normalize c check) \<longleftrightarrow>
         (result_flag r = 0 \<or> run_on_error (case_checker c)) \<and>
         (\<exists>out. call (case_checker c) (checker_args_of g c r) = Inr out \<and>
                passed (normalize c out)))"
  proof (cases "result_flag r = 0 \<or> run_on_error (case_checker c)")
    case True
    then show ?thesis
      by (auto simp: Standard_check_result_run normalize_def split: sum.splits if_splits)
  next
    case False
    then show ?thesis
      by (auto simp: Standard_check_result_skip normalize_def)
  qed
  have b: "\<forall>check. fst (Bridged_check_result E isb bg c r w2) = Inr check \<longrightarrow>
      (passed (normalize c check) \<longleftrightarrow>
         result_flag r = 0 \<and>
         (\<exists>a out. contrib_modules E (contrib_type bg) = Some a \<and>
                  parse_return_code a (parse_args_of E isb bg c w2) = Inr out \<and>
                  passed (normalize c out)))"
  proof (intro allI impI)
    fix check assume "fst (Bridged_check_result E isb bg c r w2) = Inr check"
    from Bridged_check_result_Inr[OF this] obtain a out where
      "contrib_modules E (contrib_type bg) = Some a"
      "parse_return_code a (parse_args_of E isb bg c w2) = Inr out"
      "check = (if result_flag r \<noteq> 0 then Plain False else out)" by blast
    then show "passed (normalize c check) \<longleftrightarrow>
         result_flag r = 0 \<and>
         (\<exists>a out. contrib_modules E (contrib_type bg) = Some a \<and>
                  parse_return_code a (parse_args_of E isb bg c w2) = Inr out \<and>
                  passed (normalize c out))"
      by (auto simp: normalize_def)
  qed
  show ?thesis
    using g s b by (simp add: verdict_flag_eq normalize_def)
qed

theorem verdict_flag_merged_witness:
  "fst (Bridged_check_result (judgeenv0 (Plain True) compile_ok) (isandbox0 None) bgrader0
          (case0 (const_checker False (Plain False))) result0
          (world0\<lparr>interactor := Some Interactor\<rparr>)) = Inr (Plain True) \<and>
   passed (normalize (case0 (const_checker False (Plain False))) (Plain True)) \<and>
   result_flag result0 = 0 \<and>
   (\<exists>a out. contrib_modules (judgeenv0 (Plain True) compile_ok) (contrib_type bgrader0) = Some a \<and>
      parse_return_code a (parse_args_of (judgeenv0 (Plain True) compile_ok) (isandbox0 None)
         bgrader0 (case0 (const_checker False (Plain False)))
         (world0\<lparr>interactor := Some Interactor\<rparr>)) = Inr out \<and>
      passed (normalize (case0 (const_checker False (Plain False))) out))"
proof -
  have h: "fst (Bridged_check_result (judgeenv0 (Plain True) compile_ok) (isandbox0 None) bgrader0
          (case0 (const_checker False (Plain False))) result0
          (world0\<lparr>interactor := Some Interactor\<rparr>)) = Inr (Plain True)"
    by (simp add: bridged_eval)
  have p: "passed (normalize (case0 (const_checker False (Plain False))) (Plain True))"
    by (simp add: normalize_def)
  from verdict_flag_merged[where E = "judgeenv0 (Plain True) compile_ok" and isb = "isandbox0 None"
      and bg = bgrader0 and c = "case0 (const_checker False (Plain False))" and r = result0
      and ?w2.0 = "world0\<lparr>interactor := Some Interactor\<rparr>"] h p
  show ?thesis by blast
qed

section \<open>Decoding failures of the checker\<close>

text \<open>
  C8: when the checker is invoked (the condition of line 65 holds) and raises a
  text-decoding failure, \<open>check_result\<close> returns a failing \<open>CheckerResult\<close> with 0
  points and the feedback \<open>invalid unicode\<close>, and \<open>grade\<close> returns a Result (it does
  not raise) with 0 points, that feedback and WA OR'd into its flags.
\<close>

theorem checker_decode_failure_recovered:
  assumes "run_and_populate (Standard_launch_process sb g) (Standard_interact_with_process sb g)
             fv sb r0 c w = (Inr r2, w2)"
    and "result_flag r2 = 0 \<or> run_on_error (case_checker c)"
    and "call (case_checker c) (checker_args_of g c r2) = Inl UnicodeDecodeError"
  shows "fst (Standard_check_result g c r2 w2) =
           Inr (Rich (CheckerResult False 0 (Some ''invalid unicode'') None)) \<and>
         (\<exists>res. fst (Standard_grade fv sb g r0 c w) = Inr res \<and>
            points res = 0 \<and> feedback res = ''invalid unicode'' \<and>
            result_flag res = result_flag r2 OR WA fv)"
proof -
  have cr: "Standard_check_result g c r2 w2 =
      (Inr (Rich (CheckerResult False 0 (Some ''invalid unicode'') None)),
       w2\<lparr>trace := trace w2 @ [CheckerCall (checker_args_of g c r2)]\<rparr>)"
    using assms(2,3) by (simp add: Standard_check_result_run)
  have "fst (Standard_grade fv sb g r0 c w) =
      Inr (merge_check fv r2
             (normalize c (Rich (CheckerResult False 0 (Some ''invalid unicode'') None))))"
    unfolding Standard_grade_def using grade_with_forward[where C = "Standard_check_result g", OF assms(1) cr] by simp
  then show ?thesis
    using cr by (simp add: merge_check_def normalize_def verdict_flag_eq or_else_def)
qed

theorem checker_decode_failure_recovered_witness:
  "run_and_populate (Standard_launch_process sandbox0 grader0)
     (Standard_interact_with_process sandbox0 grader0) flags0 sandbox0 result0
     (case0 (raising_checker False UnicodeDecodeError)) world0 =
     (Inr (result0\<lparr>proc_output := ''3''\<rparr>),
      world0\<lparr>terminated := [Submission], fsize := 1048576, current_proc := Some Submission,
        trace := [Launch Submission, Wait Submission, PopulateResult]\<rparr>) \<and>
   (\<exists>res. fst (Standard_grade flags0 sandbox0 grader0 result0
                 (case0 (raising_checker False UnicodeDecodeError)) world0) = Inr res \<and>
      points res = 0 \<and> feedback res = ''invalid unicode'' \<and>
      result_flag res = result_flag (result0\<lparr>proc_output := ''3''\<rparr>) OR WA flags0)"
proof -
  have h: "run_and_populate (Standard_launch_process sandbox0 grader0)
     (Standard_interact_with_process sandbox0 grader0) flags0 sandbox0 result0
     (case0 (raising_checker False UnicodeDecodeError)) world0 =
     (Inr (result0\<lparr>proc_output := ''3''\<rparr>),
      world0\<lparr>terminated := [Submission], fsize := 1048576, current_proc := Some Submission,
        trace := [Launch Submission, Wait Submission, PopulateResult]\<rparr>)"
    by (simp add: standard_eval)
  have a: "result_flag (result0\<lparr>proc_output := ''3''\<rparr>) = 0 \<or>
        run_on_error (case_checker (case0 (raising_checker False UnicodeDecodeError)))"
    by (simp add: result0_def)
  have b: "call (case_checker (case0 (raising_checker False UnicodeDecodeError)))
        (checker_args_of grader0 (case0 (raising_checker False UnicodeDecodeError))
           (result0\<lparr>proc_output := ''3''\<rparr>)) = Inl UnicodeDecodeError"
    by (simp add: case0_def raising_checker_def)
  from checker_decode_failure_recovered[OF h a b] h show ?thesis by blast
qed

section \<open>Construction of the interactive grader\<close>

lemmas init_eval = Bridged_init_def generate_interactor_binary_def judgeenv0_def adapter0_def
  handler0_def grader0_def compile_ok_def compile_fails_def path_join_def


lemma Bridged_init_compile_error:
  assumes "generate_interactor_binary E (problem_id g) cfg = Inl (CompileError m)"
  shows "Bridged_init E (Inr g) cfg = Inl (InternalError ''interactor failed compiling'')"
  using assms by (simp add: Bridged_init_def)



text \<open>
  C5: when, during construction, the interactor sources fail to compile (generating the
  interactor binary raises the compile error), construction raises the internal error
  \<open>interactor failed compiling\<close> and never a compile error.
\<close>

theorem interactor_compile_failure_is_internal_error:
  assumes "super_init = Inr g"
    and "generate_interactor_binary E (problem_id g) cfg = Inl (CompileError m)"
  shows "Bridged_init E super_init cfg = Inl (InternalError ''interactor failed compiling'') \<and>
         (\<forall>m'. Bridged_init E super_init cfg \<noteq> Inl (CompileError m'))"
  using assms by (simp add: Bridged_init_compile_error)

theorem interactor_compile_failure_is_internal_error_witness:
  "generate_interactor_binary (judgeenv0 (Plain True) compile_fails) (problem_id grader0)
     (handler0 (FilesStr ''interactor.cpp'') None) =
     Inl (CompileError ''interactor.cpp:1: error'') \<and>
   Bridged_init (judgeenv0 (Plain True) compile_fails) (Inr grader0)
     (handler0 (FilesStr ''interactor.cpp'') None) =
     Inl (InternalError ''interactor failed compiling'')"
proof -
  have a: "generate_interactor_binary (judgeenv0 (Plain True) compile_fails) (problem_id grader0)
     (handler0 (FilesStr ''interactor.cpp'') None) =
     Inl (CompileError ''interactor.cpp:1: error'')"
    by (simp add: init_eval)
  from interactor_compile_failure_is_internal_error[OF refl a] a show ?thesis by blast
qed

section \<open>Shapes of the files entry\<close>

text \<open>
  C10 as stated (for every shape of \<open>files\<close> other than a string or a wrapped list, the
  use of the unassigned local \<open>filenames\<close> is reached) fails for a value that has no
  \<open>unwrap\<close> method, such as the value of a missing entry: line 125 raises on
  \<open>files.unwrap()\<close> before \<open>filenames\<close> is used.
\<close>

theorem generate_interactor_binary_counterexample:
  "h_files (handler0 FilesPlain None) = FilesPlain \<and>
   generate_interactor_binary (judgeenv0 (Plain True) compile_ok) ''aplusb''
     (handler0 FilesPlain None) = Inl (AttributeError ''unwrap'') \<and>
   generate_interactor_binary (judgeenv0 (Plain True) compile_ok) ''aplusb''
     (handler0 FilesPlain None) \<noteq> Inl (UnboundLocalError ''filenames'')"
  by (simp add: init_eval)

text \<open>
  C10, amended: \<open>_generate_interactor_binary\<close> returns a binary only if \<open>files\<close> is a
  string or unwraps to a list. For a value whose \<open>unwrap()\<close> is not a list, the use of
  the unassigned local \<open>filenames\<close> is reached when the problem root exists (the assertion
  on the problem root fails first when it does not); for a value without \<open>unwrap\<close> the
  attribute error of line 125 is raised. In none of these cases is a configuration
  (internal) error reported.
\<close>

theorem generate_interactor_binary_shapes:
  "((\<exists>b. generate_interactor_binary E pid cfg = Inr b) \<longrightarrow>
      (\<exists>s. h_files cfg = FilesStr s) \<or> (\<exists>fs. h_files cfg = FilesNode (UList fs))) \<and>
   (\<forall>m. h_files cfg = FilesNode (UMapping m) \<longrightarrow>
      generate_interactor_binary E pid cfg =
        (case get_problem_root E pid of
           None \<Rightarrow> Inl AssertionError
         | Some problem_root \<Rightarrow> Inl (UnboundLocalError ''filenames''))) \<and>
   (h_files cfg = FilesPlain \<longrightarrow>
      generate_interactor_binary E pid cfg = Inl (AttributeError ''unwrap'')) \<and>
   ((\<forall>s. h_files cfg \<noteq> FilesStr s) \<and> (\<forall>fs. h_files cfg \<noteq> FilesNode (UList fs)) \<longrightarrow>
      (\<forall>msg. generate_interactor_binary E pid cfg \<noteq> Inl (InternalError msg)))"
  by (auto simp: generate_interactor_binary_def
           split: files_entry.splits unwrapped.splits option.splits)

theorem generate_interactor_binary_shapes_witness:
  "h_files (handler0 (FilesNode (UMapping [(''main'', ''interactor.cpp'')])) None) =
     FilesNode (UMapping [(''main'', ''interactor.cpp'')]) \<and>
   get_problem_root (judgeenv0 (Plain True) compile_ok) ''aplusb'' = Some ''/problems/aplusb'' \<and>
   generate_interactor_binary (judgeenv0 (Plain True) compile_ok) ''aplusb''
     (handler0 (FilesNode (UMapping [(''main'', ''interactor.cpp'')])) None) =
     Inl (UnboundLocalError ''filenames'')"
  using generate_interactor_binary_shapes[where E = "judgeenv0 (Plain True) compile_ok"
      and pid = "''aplusb''"
      and cfg = "handler0 (FilesNode (UMapping [(''main'', ''interactor.cpp'')])) None"]
  by (simp add: handler0_def judgeenv0_def)

section \<open>Output limit\<close>

lemma flag_set_by_or: "(a OR b) AND b = (b::int)"
  by (rule bit_eqI) (auto simp: bit_and_iff bit_or_iff)

lemma flag_kept_by_or:
  assumes "x AND f = (f::int)"
  shows "(x OR v) AND f = f"
proof -
  have "(x OR v) AND f = (x AND f) OR (v AND f)"
    by (simp add: bit.conj_disj_distrib2)
  also have "\<dots> = f OR (v AND f)" using assms by simp
  also have "\<dots> = f" by (rule bit_eqI) (auto simp: bit_and_iff bit_or_iff)
  finally show ?thesis .
qed

lemma run_and_populate_memfd_ole:
  assumes "launch_error sb = None" and "length (sub_stdout sb) > output_limit_length c"
    and "memfd_output g"
  shows "run_and_populate (Standard_launch_process sb g) (Standard_interact_with_process sb g)
           fv sb r0 c w =
         (Inr (r0\<lparr>proc_output := sub_stdout sb,
                 result_flag := result_flag r0 OR sub_flags sb OR OLE fv,
                 execution_time := sub_time sb\<rparr>),
          w\<lparr>fsize := max (orig_fsize g) (max (output_limit_length c + 1024) 1048576),
            current_proc := Some Submission,
            terminated := Submission # terminated w,
            ole_marked := Submission # ole_marked w,
            trace := trace w @ [Launch Submission, Wait Submission, MarkOLE Submission,
                                PopulateResult]\<rparr>)"
  using assms
  by (simp add: run_and_populate_def Standard_launch_process_def
        Standard_interact_with_process_def populate_result_def bind_def ret_def wait_def
        mark_ole_def Let_def)



section \<open>The interactive grader, step by step\<close>

lemmas bridged_grade_eval = Bridged_grade_def grade_with_def run_and_populate_def
  Bridged_launch_process_def Bridged_interact_with_process_def Bridged_check_result_def
  resolve_args_format_string_def with_mktemp_def os_pipe_def os_close_def
  parse_args_of_def populate_result_def wait_def normalize_def merge_check_def
  verdict_flag_def or_else_def flags0_def judgeenv0_def adapter0_def isandbox0_def
  bgrader0_def handler0_def StandardGrader.extend_def BridgedInteractiveGrader.fields_def
  grader0_def bind_def ret_def raise_def emit_def world0_def result0_def case0_def
  const_checker_def compile_ok_def Let_def

lemma Bridged_launch_process_eq:
  "Bridged_launch_process sb g c w =
     (case launch_error sb of
        Some e \<Rightarrow>
          (Inl e, w\<lparr>open_fds := open_fds w @ [next_fd w, next_fd w + 1, next_fd w + 2, next_fd w + 3],
                    next_fd := next_fd w + 4,
                    interactor_stdin_pipe := next_fd w,
                    interactor_stdout_pipe := next_fd w + 3,
                    trace := trace w @ [PipeCreated (next_fd w) (next_fd w + 1),
                                        PipeCreated (next_fd w + 2) (next_fd w + 3)]\<rparr>)
      | None \<Rightarrow>
          (Inr (), w\<lparr>open_fds := removeAll (next_fd w + 1) (removeAll (next_fd w + 2)
                         (open_fds w @ [next_fd w, next_fd w + 1, next_fd w + 2, next_fd w + 3])),
                     next_fd := next_fd w + 4,
                     interactor_stdin_pipe := next_fd w,
                     interactor_stdout_pipe := next_fd w + 3,
                     current_proc := Some Submission,
                     trace := trace w @ [PipeCreated (next_fd w) (next_fd w + 1),
                                         PipeCreated (next_fd w + 2) (next_fd w + 3),
                                         Launch Submission, Close (next_fd w + 2),
                                         Close (next_fd w + 1)]\<rparr>))"
  by (simp add: Bridged_launch_process_def os_pipe_def os_close_def bind_def
        split: option.splits)

lemma Bridged_interact_Inr:
  assumes "Bridged_interact_with_process E sb g c r w = (Inr x, w')"
  shows "\<exists>p afs ip args.
           current_proc w = Some p \<and>
           resolve_args_format_string E g = Inr afs \<and>
           to_path sb = Inr ip \<and>
           format_args sb afs ip ''/dev/null'' (tmp_name sb) = Inr args \<and>
           interactor_launch_error sb = None \<and>
           x = (sub_stderr sb, r) \<and>
           w' = (interactor_limits E g w)
                  \<lparr>interactor := Some Interactor,
                   open_fds := removeAll (interactor_stdout_pipe w)
                                 (removeAll (interactor_stdin_pipe w) (open_fds w)),
                   terminated := Interactor # p # terminated w,
                   temp_files := removeAll (tmp_name sb) (temp_files w),
                   trace := trace w @ [TempCreated (tmp_name sb), Launch Interactor,
                                       Close (interactor_stdin_pipe w),
                                       Close (interactor_stdout_pipe w),
                                       Wait p, Wait Interactor,
                                       TempDeleted (tmp_name sb)]\<rparr>"
  using assms
  by (auto simp: Bridged_interact_with_process_def interactor_limits_def with_mktemp_def
        os_close_def wait_def bind_def ret_def Let_def
        split: option.splits sum.splits prod.splits if_splits)

lemma bind_snd_inv:
  assumes "\<And>w. P w \<Longrightarrow> P (snd (m w))" and "\<And>x w. P w \<Longrightarrow> P (snd (f x w))" and "P w"
  shows "P (snd (bind m f w))"
proof (cases "m w")
  case (Pair a w1)
  then have "P w1" using assms(1)[OF assms(3)] by simp
  then show ?thesis
    using Pair assms(2) by (cases a) (simp_all add: bind_def)
qed

lemma Bridged_check_result_world:
  "Bridged_check_result E sb g c r w = (Inr check, w') \<Longrightarrow>
   w' = w\<lparr>trace := trace w @ [ParseReturnCode]\<rparr>"
  by (auto simp: Bridged_check_result_def bind_def emit_def ret_def raise_def
           split: option.splits sum.splits)

lemma removeAll_fresh_pipes:
  assumes "list_all (\<lambda>fd. fd < (n::nat)) xs"
  shows "removeAll (n + 3) (removeAll n (removeAll (n + 1) (removeAll (n + 2)
           (xs @ [n, n + 1, n + 2, n + 3])))) = xs"
proof -
  have "n \<notin> set xs" "n + 1 \<notin> set xs" "n + 2 \<notin> set xs" "n + 3 \<notin> set xs"
    using assms by (auto simp: list_all_iff)
  then show ?thesis by simp
qed

lemma run_and_populate_Inr:
  "run_and_populate L I fv sb r0 c w = (Inr r2, w2) \<longleftrightarrow>
     (\<exists>u w1 err r1 wi p. L c w = (Inr u, w1) \<and> I c r0 w1 = (Inr (err, r1), wi) \<and>
        current_proc wi = Some p \<and> populate_result fv sb err r1 p wi = (Inr r2, w2))"
proof
  assume "run_and_populate L I fv sb r0 c w = (Inr r2, w2)"
  then obtain u w1 x wi where
    "L c w = (Inr u, w1)" "I c r0 w1 = (Inr x, wi)"
    "(case x of (err, r1) \<Rightarrow> (\<lambda>w. case current_proc w of
               None \<Rightarrow> (Inl AssertionError, w)
             | Some p \<Rightarrow> populate_result fv sb err r1 p w)) wi = (Inr r2, w2)"
    unfolding run_and_populate_def bind_Inr_iff by blast
  then show "\<exists>u w1 err r1 wi p. L c w = (Inr u, w1) \<and> I c r0 w1 = (Inr (err, r1), wi) \<and>
        current_proc wi = Some p \<and> populate_result fv sb err r1 p wi = (Inr r2, w2)"
    by (cases x; cases "current_proc wi") auto
next
  assume "\<exists>u w1 err r1 wi p. L c w = (Inr u, w1) \<and> I c r0 w1 = (Inr (err, r1), wi) \<and>
        current_proc wi = Some p \<and> populate_result fv sb err r1 p wi = (Inr r2, w2)"
  then show "run_and_populate L I fv sb r0 c w = (Inr r2, w2)"
    by (auto simp: run_and_populate_def bind_def)
qed

lemma Bridged_grade_Inr:
  assumes "Bridged_grade fv E sb g r0 c w = (Inr res, w')"
  shows "trace w' = trace w @
           [PipeCreated (next_fd w) (next_fd w + 1),
            PipeCreated (next_fd w + 2) (next_fd w + 3),
            Launch Submission, Close (next_fd w + 2), Close (next_fd w + 1),
            TempCreated (tmp_name sb), Launch Interactor,
            Close (next_fd w), Close (next_fd w + 3),
            Wait Submission, Wait Interactor, TempDeleted (tmp_name sb),
            PopulateResult, ParseReturnCode, FreeData] \<and>
         open_fds w' = removeAll (next_fd w + 3) (removeAll (next_fd w)
           (removeAll (next_fd w + 1) (removeAll (next_fd w + 2)
              (open_fds w @ [next_fd w, next_fd w + 1, next_fd w + 2, next_fd w + 3])))) \<and>
         temp_files w' = removeAll (tmp_name sb) (temp_files w) \<and>
         terminated w' = Interactor # Submission # terminated w"
proof -
  from assms obtain r2 w2 check w3 where
    rp: "run_and_populate (Bridged_launch_process sb g) (Bridged_interact_with_process E sb g)
           fv sb r0 c w = (Inr r2, w2)"
    and ch: "Bridged_check_result E sb g c r2 w2 = (Inr check, w3)"
    and w': "w' = w3\<lparr>trace := trace w3 @ [FreeData]\<rparr>"
    unfolding Bridged_grade_def grade_with_Inr by blast
  from rp obtain u w1 err r1 wi p where
    l: "Bridged_launch_process sb g c w = (Inr u, w1)"
    and i: "Bridged_interact_with_process E sb g c r0 w1 = (Inr (err, r1), wi)"
    and p: "populate_result fv sb err r1 p wi = (Inr r2, w2)"
    unfolding run_and_populate_Inr by blast
  have le: "launch_error sb = None"
    using l by (auto simp: Bridged_launch_process_eq split: option.splits)
  have w1: "w1 = w\<lparr>open_fds := removeAll (next_fd w + 1) (removeAll (next_fd w + 2)
                         (open_fds w @ [next_fd w, next_fd w + 1, next_fd w + 2, next_fd w + 3])),
                     next_fd := next_fd w + 4,
                     interactor_stdin_pipe := next_fd w,
                     interactor_stdout_pipe := next_fd w + 3,
                     current_proc := Some Submission,
                     trace := trace w @ [PipeCreated (next_fd w) (next_fd w + 1),
                                         PipeCreated (next_fd w + 2) (next_fd w + 3),
                                         Launch Submission, Close (next_fd w + 2),
                                         Close (next_fd w + 1)]\<rparr>"
    using l le by (simp add: Bridged_launch_process_eq)
  from Bridged_interact_Inr[OF i] obtain pp where
    pp: "current_proc w1 = Some pp"
    and wi: "wi = (interactor_limits E g w1)
                  \<lparr>interactor := Some Interactor,
                   open_fds := removeAll (interactor_stdout_pipe w1)
                                 (removeAll (interactor_stdin_pipe w1) (open_fds w1)),
                   terminated := Interactor # pp # terminated w1,
                   temp_files := removeAll (tmp_name sb) (temp_files w1),
                   trace := trace w1 @ [TempCreated (tmp_name sb), Launch Interactor,
                                       Close (interactor_stdin_pipe w1),
                                       Close (interactor_stdout_pipe w1),
                                       Wait pp, Wait Interactor,
                                       TempDeleted (tmp_name sb)]\<rparr>"
    by blast
  have pp': "pp = Submission" using pp w1 by simp
  have w2: "w2 = wi\<lparr>trace := trace wi @ [PopulateResult]\<rparr>"
    using p by (auto simp: populate_result_def)
  have w3: "w3 = w2\<lparr>trace := trace w2 @ [ParseReturnCode]\<rparr>"
    using Bridged_check_result_world[OF ch] .
  show ?thesis
    unfolding w' w3 w2 wi pp' w1 by (simp add: interactor_limits_def)
qed

lemma Bridged_launch_temp_files:
  "temp_files (snd (Bridged_launch_process sb g c w)) = temp_files w"
  by (simp add: Bridged_launch_process_eq split: option.splits)

lemma Bridged_check_temp_files:
  "temp_files (snd (Bridged_check_result E sb g c r w)) = temp_files w"
  by (auto simp: Bridged_check_result_def bind_def emit_def ret_def raise_def
           split: option.splits sum.splits)

lemma os_close_temp_files: "temp_files (snd (os_close fd w)) = temp_files w"
  by (simp add: os_close_def)

lemma wait_temp_files: "temp_files (snd (wait p w)) = temp_files w"
  by (simp add: wait_def)

lemma with_mktemp_temp_files:
  assumes "\<And>v. temp_files (snd (body name v)) = temp_files v"
  shows "temp_files (snd (with_mktemp name content body w)) = removeAll name (temp_files w)"
proof -
  obtain res w' where b: "body name (w\<lparr>temp_files := name # temp_files w,
                        trace := trace w @ [TempCreated name]\<rparr>) = (res, w')"
    by (cases "body name (w\<lparr>temp_files := name # temp_files w,
                        trace := trace w @ [TempCreated name]\<rparr>)") auto
  have "temp_files w' = name # temp_files w"
    using assms[of "w\<lparr>temp_files := name # temp_files w,
                        trace := trace w @ [TempCreated name]\<rparr>"] b by simp
  then show ?thesis by (simp add: with_mktemp_def b)
qed

lemma interaction_body_temp_files:
  "temp_files (snd (
     bind (\<lambda>w. (to_path sb, w)) (\<lambda>input_path.
     bind (\<lambda>w. (format_args sb afs input_path ''/dev/null'' answer_file, w)) (\<lambda>interactor_args.
     bind (\<lambda>w. case interactor_launch_error sb of
                 Some e \<Rightarrow> (Inl e, w)
               | None \<Rightarrow> (Inr (), w\<lparr>interactor := Some Interactor,
                                     trace := trace w @ [Launch Interactor]\<rparr>)) (\<lambda>_.
     bind (\<lambda>w. os_close (interactor_stdin_pipe w) w) (\<lambda>_.
     bind (\<lambda>w. os_close (interactor_stdout_pipe w) w) (\<lambda>_.
     bind (wait p) (\<lambda>_.
     bind (wait Interactor) (\<lambda>_.
     ret (sub_stderr sb, r)))))))) v)) = temp_files v"
  by (rule bind_snd_inv[where P = "\<lambda>u. temp_files u = temp_files v"]
      | simp add: os_close_temp_files wait_temp_files ret_def split: option.splits)+

lemma Bridged_interact_temp_files:
  assumes "tmp_name sb \<notin> set (temp_files w)"
  shows "temp_files (snd (Bridged_interact_with_process E sb g c r w)) = temp_files w"
proof (cases "current_proc w")
  case None
  then show ?thesis by (simp add: Bridged_interact_with_process_def)
next
  case (Some p)
  show ?thesis
  proof (cases "resolve_args_format_string E g")
    case (Inl e)
    then show ?thesis using Some by (simp add: Bridged_interact_with_process_def Let_def)
  next
    case (Inr afs)
    then show ?thesis
      using Some assms
      by (simp add: Bridged_interact_with_process_def Let_def
            with_mktemp_temp_files interaction_body_temp_files)
  qed
qed

lemma grade_with_snd_inv:
  assumes L: "\<And>w. P w \<Longrightarrow> P (snd (L c w))"
    and I: "\<And>r w. P w \<Longrightarrow> P (snd (I c r w))"
    and C: "\<And>r w. P w \<Longrightarrow> P (snd (C c r w))"
    and T: "\<And>w t. P w \<Longrightarrow> P (w\<lparr>trace := t\<rparr>)"
    and w: "P w"
  shows "P (snd (grade_with L I C fv sb r0 c w))"
proof -
  have pop: "P (snd (case current_proc v of
               None \<Rightarrow> (Inl AssertionError, v)
             | Some p \<Rightarrow> populate_result fv sb err r1 p v))" if "P v" for err r1 v
    using that by (cases "current_proc v") (simp_all add: populate_result_def T)
  have inner: "P (snd (bind (I c r0) (\<lambda>(err, r1) w. case current_proc w of
               None \<Rightarrow> (Inl AssertionError, w)
             | Some p \<Rightarrow> populate_result fv sb err r1 p w) v))" if "P v" for v
  proof (rule bind_snd_inv[where P = P])
    show "P v" by (rule that)
    show "\<And>w. P w \<Longrightarrow> P (snd (I c r0 w))" by (rule I)
    show "\<And>x w. P w \<Longrightarrow> P (snd ((case x of (err, r1) \<Rightarrow> \<lambda>w. case current_proc w of
               None \<Rightarrow> (Inl AssertionError, w)
             | Some p \<Rightarrow> populate_result fv sb err r1 p w) w))"
      by (simp add: pop split: prod.splits)
  qed
  have rp: "P (snd (run_and_populate L I fv sb r0 c v))" if "P v" for v
    unfolding run_and_populate_def
    by (rule bind_snd_inv[where P = P]) (simp_all add: L inner that)
  have fin: "P (snd (bind (emit FreeData) (\<lambda>_. ret x) v))" if "P v" for x v
    using that by (simp add: bind_def emit_def ret_def T)
  have chk: "P (snd (bind (C c r2) (\<lambda>check. bind (emit FreeData)
               (\<lambda>_. ret (merge_check fv r2 (normalize c check)))) v))" if "P v" for r2 v
    by (rule bind_snd_inv[where P = P]) (simp_all add: C fin that)
  show ?thesis
    unfolding grade_with_def
    by (rule bind_snd_inv[where P = P]) (simp_all add: rp chk w)
qed

lemma Bridged_grade_temp_files:
  assumes "tmp_name sb \<notin> set (temp_files w)"
  shows "temp_files (snd (Bridged_grade fv E sb g r0 c w)) = temp_files w"
  unfolding Bridged_grade_def
proof (rule grade_with_snd_inv[where P = "\<lambda>v. temp_files v = temp_files w"])
  show "\<And>v. temp_files v = temp_files w \<Longrightarrow>
         temp_files (snd (Bridged_launch_process sb g c v)) = temp_files w"
    by (simp add: Bridged_launch_temp_files)
  show "\<And>r v. temp_files v = temp_files w \<Longrightarrow>
         temp_files (snd (Bridged_interact_with_process E sb g c r v)) = temp_files w"
    using assms by (simp add: Bridged_interact_temp_files)
  show "\<And>r v. temp_files v = temp_files w \<Longrightarrow>
         temp_files (snd (Bridged_check_result E sb g c r v)) = temp_files w"
    by (simp add: Bridged_check_temp_files)
qed simp_all

lemma extends_verdict_free_iff:
  "extends_verdict_free t u \<longleftrightarrow> (\<exists>evs. trace u = t @ evs \<and> verdict_free evs)"
proof
  assume "extends_verdict_free t u"
  then have a: "take (length t) (trace u) = t"
    and b: "verdict_free (drop (length t) (trace u))"
    unfolding extends_verdict_free_def by simp_all
  have "trace u = t @ drop (length t) (trace u)"
    using a append_take_drop_id[of "length t" "trace u"] by simp
  then show "\<exists>evs. trace u = t @ evs \<and> verdict_free evs" using b by blast
next
  assume "\<exists>evs. trace u = t @ evs \<and> verdict_free evs"
  then show "extends_verdict_free t u"
    by (auto simp: extends_verdict_free_def)
qed

lemma extends_verdict_free_refl: "extends_verdict_free (trace u) u"
  by (simp add: extends_verdict_free_def verdict_free_def)

lemma extends_verdict_free_step:
  assumes "extends_verdict_free t u" and "trace u' = trace u @ evs" and "verdict_free evs"
  shows "extends_verdict_free t u'"
proof -
  from assms(1) obtain es where "trace u = t @ es" "verdict_free es"
    unfolding extends_verdict_free_iff by blast
  then have "trace u' = t @ (es @ evs)" "verdict_free (es @ evs)"
    using assms(2,3) by (simp_all add: verdict_free_def)
  then show ?thesis unfolding extends_verdict_free_iff by blast
qed

lemma os_close_extends:
  "extends_verdict_free t u \<Longrightarrow> extends_verdict_free t (snd (os_close fd u))"
  by (cases "fd \<in> set (open_fds u)")
     (auto simp: os_close_def verdict_free_def elim!: extends_verdict_free_step)

lemma wait_extends:
  "extends_verdict_free t u \<Longrightarrow> extends_verdict_free t (snd (wait p u))"
  by (auto simp: wait_def verdict_free_def elim!: extends_verdict_free_step)

lemma interaction_body_extends:
  assumes "extends_verdict_free t v"
  shows "extends_verdict_free t (snd (
     bind (\<lambda>w. (to_path sb, w)) (\<lambda>input_path.
     bind (\<lambda>w. (format_args sb afs input_path ''/dev/null'' answer_file, w)) (\<lambda>interactor_args.
     bind (\<lambda>w. case interactor_launch_error sb of
                 Some e \<Rightarrow> (Inl e, w)
               | None \<Rightarrow> (Inr (), w\<lparr>interactor := Some Interactor,
                                     trace := trace w @ [Launch Interactor]\<rparr>)) (\<lambda>_.
     bind (\<lambda>w. os_close (interactor_stdin_pipe w) w) (\<lambda>_.
     bind (\<lambda>w. os_close (interactor_stdout_pipe w) w) (\<lambda>_.
     bind (wait p) (\<lambda>_.
     bind (wait Interactor) (\<lambda>_.
     ret (sub_stderr sb, r)))))))) v))"
proof -
  have launch: "extends_verdict_free t (snd (case interactor_launch_error sb of
                 Some e \<Rightarrow> (Inl e, u)
               | None \<Rightarrow> (Inr (), u\<lparr>interactor := Some Interactor,
                                     trace := trace u @ [Launch Interactor]\<rparr>)))"
    if "extends_verdict_free t u" for u
    using that
    by (cases "interactor_launch_error sb")
       (auto simp: verdict_free_def elim!: extends_verdict_free_step)
  show ?thesis
    by (rule bind_snd_inv[where P = "extends_verdict_free t"]
        | simp add: os_close_extends wait_extends launch ret_def assms)+
qed

lemma with_mktemp_extends:
  assumes "\<And>v. extends_verdict_free t v \<Longrightarrow> extends_verdict_free t (snd (body name v))"
    and "extends_verdict_free t w"
  shows "extends_verdict_free t (snd (with_mktemp name content body w))"
proof -
  let ?w1 = "w\<lparr>temp_files := name # temp_files w, trace := trace w @ [TempCreated name]\<rparr>"
  have "extends_verdict_free t ?w1"
    using assms(2) by (auto simp: verdict_free_def elim!: extends_verdict_free_step)
  then have b: "extends_verdict_free t (snd (body name ?w1))" by (rule assms(1))
  obtain res w' where r: "body name ?w1 = (res, w')" by (cases "body name ?w1") auto
  have "extends_verdict_free t (w'\<lparr>temp_files := removeAll name (temp_files w'),
                   trace := trace w' @ [TempDeleted name]\<rparr>)"
    using b r by (auto simp: verdict_free_def elim!: extends_verdict_free_step)
  then show ?thesis by (simp add: with_mktemp_def r)
qed

lemma Bridged_interact_extends:
  assumes "extends_verdict_free t w"
  shows "extends_verdict_free t (snd (Bridged_interact_with_process E sb g c r w))"
proof (cases "current_proc w")
  case None
  then show ?thesis using assms by (simp add: Bridged_interact_with_process_def)
next
  case (Some p)
  have lim: "extends_verdict_free t (interactor_limits E g w)"
    using assms by (auto simp: interactor_limits_def verdict_free_def
          elim!: extends_verdict_free_step)
  show ?thesis
  proof (cases "resolve_args_format_string E g")
    case (Inl e)
    then show ?thesis
      using Some lim
      by (simp add: Bridged_interact_with_process_def Let_def interactor_limits_def)
  next
    case (Inr afs)
    have "extends_verdict_free t (snd (with_mktemp (tmp_name sb) (output_data c)
       (\<lambda>answer_file.
          bind (\<lambda>w. (to_path sb, w)) (\<lambda>input_path.
          bind (\<lambda>w. (format_args sb afs input_path ''/dev/null'' answer_file, w))
            (\<lambda>interactor_args.
          bind (\<lambda>w. case interactor_launch_error sb of
                      Some e \<Rightarrow> (Inl e, w)
                    | None \<Rightarrow> (Inr (), w\<lparr>interactor := Some Interactor,
                                          trace := trace w @ [Launch Interactor]\<rparr>)) (\<lambda>_.
          bind (\<lambda>w. os_close (interactor_stdin_pipe w) w) (\<lambda>_.
          bind (\<lambda>w. os_close (interactor_stdout_pipe w) w) (\<lambda>_.
          bind (wait p) (\<lambda>_.
          bind (wait Interactor) (\<lambda>_.
          ret (sub_stderr sb, r)))))))))
       (interactor_limits E g w)))"
      by (rule with_mktemp_extends[OF _ lim]) (rule interaction_body_extends)
    then show ?thesis
      using Some Inr
      by (simp add: Bridged_interact_with_process_def Let_def interactor_limits_def)
  qed
qed

lemma Bridged_check_result_trace:
  "\<exists>post. trace (snd (Bridged_check_result E sb g c r w)) = trace w @ post"
  by (auto simp: Bridged_check_result_def bind_def emit_def ret_def raise_def
           split: option.splits sum.splits)

lemma Bridged_grade_trace_shape:
  "\<exists>evs. trace (snd (Bridged_grade fv E sb g r0 c w)) = trace w @ evs \<and>
     (verdict_free evs \<or>
      (\<exists>pre post. evs = pre @ [Wait Submission, Wait Interactor] @ post \<and> verdict_free pre))"
proof (cases "launch_error sb")
  case (Some e)
  then have "trace (snd (Bridged_grade fv E sb g r0 c w)) =
      trace w @ [PipeCreated (next_fd w) (next_fd w + 1),
                 PipeCreated (next_fd w + 2) (next_fd w + 3)]"
    by (simp add: Bridged_grade_def grade_with_def run_and_populate_def bind_def
          Bridged_launch_process_eq)
  moreover have "verdict_free [PipeCreated (next_fd w) (next_fd w + 1),
                 PipeCreated (next_fd w + 2) (next_fd w + 3)]"
    by (simp add: verdict_free_def)
  ultimately show ?thesis by blast
next
  case None
  define w1 where "w1 = w\<lparr>open_fds := removeAll (next_fd w + 1) (removeAll (next_fd w + 2)
                         (open_fds w @ [next_fd w, next_fd w + 1, next_fd w + 2, next_fd w + 3])),
                     next_fd := next_fd w + 4,
                     interactor_stdin_pipe := next_fd w,
                     interactor_stdout_pipe := next_fd w + 3,
                     current_proc := Some Submission,
                     trace := trace w @ [PipeCreated (next_fd w) (next_fd w + 1),
                                         PipeCreated (next_fd w + 2) (next_fd w + 3),
                                         Launch Submission, Close (next_fd w + 2),
                                         Close (next_fd w + 1)]\<rparr>"
  have l: "Bridged_launch_process sb g c w = (Inr (), w1)"
    using None by (simp add: Bridged_launch_process_eq w1_def)
  have tw1: "trace w1 = trace w @ [PipeCreated (next_fd w) (next_fd w + 1),
                                   PipeCreated (next_fd w + 2) (next_fd w + 3),
                                   Launch Submission, Close (next_fd w + 2),
                                   Close (next_fd w + 1)]"
    and cp: "current_proc w1 = Some Submission"
    by (simp_all add: w1_def)
  have e1: "extends_verdict_free (trace w) w1"
    unfolding extends_verdict_free_iff using tw1 by (simp add: verdict_free_def)
  obtain a wi where i: "Bridged_interact_with_process E sb g c r0 w1 = (a, wi)"
    by (cases "Bridged_interact_with_process E sb g c r0 w1") auto
  show ?thesis
  proof (cases a)
    case (Inl e)
    have "snd (Bridged_grade fv E sb g r0 c w) = wi"
      using l i Inl
      by (simp add: Bridged_grade_def grade_with_def run_and_populate_def bind_def)
    moreover have "extends_verdict_free (trace w) wi"
      using Bridged_interact_extends[OF e1, of E sb g c r0] i by simp
    ultimately show ?thesis
      unfolding extends_verdict_free_iff by auto
  next
    case (Inr x)
    from Bridged_interact_Inr[OF i[unfolded Inr]] cp
    have x: "x = (sub_stderr sb, r0)"
      and twi: "trace wi = trace w1 @ [TempCreated (tmp_name sb), Launch Interactor,
                                       Close (interactor_stdin_pipe w1),
                                       Close (interactor_stdout_pipe w1),
                                       Wait Submission, Wait Interactor,
                                       TempDeleted (tmp_name sb)]"
      and cpi: "current_proc wi = Some Submission"
      by (auto simp: interactor_limits_def)
    define r2 where "r2 = r0\<lparr>result_flag := result_flag r0 OR sub_flags sb OR
        (if Submission \<in> set (ole_marked wi) then OLE fv else 0),
        execution_time := sub_time sb\<rparr>"
    define w2 where "w2 = wi\<lparr>trace := trace wi @ [PopulateResult]\<rparr>"
    have rp: "run_and_populate (Bridged_launch_process sb g)
        (Bridged_interact_with_process E sb g) fv sb r0 c w = (Inr r2, w2)"
      using l i Inr x cpi
      by (simp add: run_and_populate_def bind_def populate_result_def r2_def w2_def)
    obtain post where post: "trace (snd (Bridged_check_result E sb g c r2 w2)) = trace w2 @ post"
      using Bridged_check_result_trace by blast
    obtain b w3 where ch: "Bridged_check_result E sb g c r2 w2 = (b, w3)"
      by (cases "Bridged_check_result E sb g c r2 w2") auto
    have "\<exists>post'. trace (snd (Bridged_grade fv E sb g r0 c w)) = trace w2 @ post'"
      using rp ch post
      by (cases b) (simp_all add: Bridged_grade_def grade_with_def bind_def emit_def ret_def)
    then obtain post' where
      "trace (snd (Bridged_grade fv E sb g r0 c w)) = trace w2 @ post'" by blast
    then have "trace (snd (Bridged_grade fv E sb g r0 c w)) =
        trace w @ ([PipeCreated (next_fd w) (next_fd w + 1),
                   PipeCreated (next_fd w + 2) (next_fd w + 3),
                   Launch Submission, Close (next_fd w + 2), Close (next_fd w + 1),
                   TempCreated (tmp_name sb), Launch Interactor,
                   Close (interactor_stdin_pipe w1), Close (interactor_stdout_pipe w1)] @
                  [Wait Submission, Wait Interactor] @
                  ([TempDeleted (tmp_name sb), PopulateResult] @ post'))"
      by (simp add: w2_def twi tw1)
    moreover have "verdict_free [PipeCreated (next_fd w) (next_fd w + 1),
                   PipeCreated (next_fd w + 2) (next_fd w + 3),
                   Launch Submission, Close (next_fd w + 2), Close (next_fd w + 1),
                   TempCreated (tmp_name sb), Launch Interactor,
                   Close (interactor_stdin_pipe w1), Close (interactor_stdout_pipe w1)]"
      by (simp add: verdict_free_def)
    ultimately show ?thesis by blast
  qed
qed

section \<open>Waiting for both processes\<close>

text \<open>
  C6: in every run of \<open>grade\<close> on an interactive case, returning or raising, nothing of
  the verdict is computed (the Result is not populated, the protocol adapter is not asked)
  before the wait for the submission and the wait for the interactor have both returned:
  the calls logged either hold no verdict computation at all or have both waits before the
  first one. When \<open>grade\<close> returns, its calls end with the two waits, the deletion of the
  answer file, the population of the Result, the adapter's judgment and the release of the
  case, and both processes have terminated. This holds from every world, whichever of the
  two processes is already known to have terminated.
\<close>

theorem interactive_grade_waits_for_both:
  "\<exists>evs. trace (snd (Bridged_grade fv E sb g r0 c w)) = trace w @ evs \<and>
     (verdict_free evs \<or>
      (\<exists>pre post. evs = pre @ [Wait Submission, Wait Interactor] @ post \<and> verdict_free pre)) \<and>
     (\<forall>res. fst (Bridged_grade fv E sb g r0 c w) = Inr res \<longrightarrow>
        (\<exists>pre. evs = pre @ [Wait Submission, Wait Interactor, TempDeleted (tmp_name sb),
                            PopulateResult, ParseReturnCode, FreeData] \<and>
               verdict_free pre) \<and>
        Submission \<in> set (terminated (snd (Bridged_grade fv E sb g r0 c w))) \<and>
        Interactor \<in> set (terminated (snd (Bridged_grade fv E sb g r0 c w))))"
proof -
  let ?G = "Bridged_grade fv E sb g r0 c w"
  let ?pre = "[PipeCreated (next_fd w) (next_fd w + 1),
            PipeCreated (next_fd w + 2) (next_fd w + 3),
            Launch Submission, Close (next_fd w + 2), Close (next_fd w + 1),
            TempCreated (tmp_name sb), Launch Interactor,
            Close (next_fd w), Close (next_fd w + 3)]"
  from Bridged_grade_trace_shape[of fv E sb g r0 c w] obtain evs where
    t: "trace (snd ?G) = trace w @ evs"
    and s: "verdict_free evs \<or>
      (\<exists>pre post. evs = pre @ [Wait Submission, Wait Interactor] @ post \<and> verdict_free pre)"
    by (elim exE conjE)
  have fin: "\<forall>res. fst ?G = Inr res \<longrightarrow>
        (\<exists>pre. evs = pre @ [Wait Submission, Wait Interactor, TempDeleted (tmp_name sb),
                            PopulateResult, ParseReturnCode, FreeData] \<and>
               verdict_free pre) \<and>
        Submission \<in> set (terminated (snd ?G)) \<and>
        Interactor \<in> set (terminated (snd ?G))"
  proof (intro allI impI)
    fix res assume r: "fst ?G = Inr res"
    have g: "?G = (Inr res, snd ?G)"
      using r by (simp add: prod_eq_iff)
    note f = Bridged_grade_Inr[OF g]
    have ev: "evs = ?pre @ [Wait Submission, Wait Interactor, TempDeleted (tmp_name sb),
             PopulateResult, ParseReturnCode, FreeData]"
      using t f by simp
    have vf: "verdict_free ?pre"
      by (simp add: verdict_free_def)
    have e: "\<exists>pre. evs = pre @ [Wait Submission, Wait Interactor, TempDeleted (tmp_name sb),
                            PopulateResult, ParseReturnCode, FreeData] \<and>
               verdict_free pre"
      using ev vf by (intro exI[of _ ?pre]) simp
    have tm: "Submission \<in> set (terminated (snd ?G))" "Interactor \<in> set (terminated (snd ?G))"
      using f by simp_all
    show "(\<exists>pre. evs = pre @ [Wait Submission, Wait Interactor, TempDeleted (tmp_name sb),
                            PopulateResult, ParseReturnCode, FreeData] \<and>
               verdict_free pre) \<and>
        Submission \<in> set (terminated (snd ?G)) \<and>
        Interactor \<in> set (terminated (snd ?G))"
      using e tm by (intro conjI)
  qed
  show ?thesis
    by (intro exI[of _ evs] conjI t s fin)
qed

theorem interactive_grade_waits_for_both_witness:
  "fst (Bridged_grade flags0 (judgeenv0 (Plain True) compile_ok) (isandbox0 None) bgrader0
          result0 (case0 (const_checker False (Plain False)))
          (world0\<lparr>terminated := [Interactor]\<rparr>)) = Inr (result0\<lparr>points := 100\<rparr>) \<and>
   (\<exists>evs pre.
      trace (snd (Bridged_grade flags0 (judgeenv0 (Plain True) compile_ok) (isandbox0 None)
        bgrader0 result0 (case0 (const_checker False (Plain False)))
        (world0\<lparr>terminated := [Interactor]\<rparr>))) =
        trace (world0\<lparr>terminated := [Interactor]\<rparr>) @ evs \<and>
      evs = pre @ [Wait Submission, Wait Interactor, TempDeleted (tmp_name (isandbox0 None)),
                   PopulateResult, ParseReturnCode, FreeData] \<and>
      verdict_free pre)"
proof -
  let ?G = "Bridged_grade flags0 (judgeenv0 (Plain True) compile_ok) (isandbox0 None) bgrader0
          result0 (case0 (const_checker False (Plain False)))
          (world0\<lparr>terminated := [Interactor]\<rparr>)"
  have h: "fst ?G = Inr (result0\<lparr>points := 100\<rparr>)"
    by (simp add: bridged_grade_eval)
  from interactive_grade_waits_for_both[of flags0 "judgeenv0 (Plain True) compile_ok"
      "isandbox0 None" bgrader0 result0 "case0 (const_checker False (Plain False))"
      "world0\<lparr>terminated := [Interactor]\<rparr>"]
  obtain evs where t: "trace (snd ?G) = trace (world0\<lparr>terminated := [Interactor]\<rparr>) @ evs"
    and f: "\<forall>res. fst ?G = Inr res \<longrightarrow>
        (\<exists>pre. evs = pre @ [Wait Submission, Wait Interactor,
                            TempDeleted (tmp_name (isandbox0 None)),
                            PopulateResult, ParseReturnCode, FreeData] \<and>
               verdict_free pre) \<and>
        Submission \<in> set (terminated (snd ?G)) \<and>
        Interactor \<in> set (terminated (snd ?G))"
    by (elim exE conjE)
  from f[rule_format, OF h, THEN conjunct1] obtain pre where
    p: "evs = pre @ [Wait Submission, Wait Interactor, TempDeleted (tmp_name (isandbox0 None)),
                    PopulateResult, ParseReturnCode, FreeData]"
    and v: "verdict_free pre"
    by (elim exE conjE)
  show ?thesis
    by (intro conjI h exI[of _ evs] exI[of _ pre] t p v)
qed

section \<open>Descriptors and temporary files of an interactive case\<close>

lemma Bridged_interact_not_launched:
  assumes "\<not> interactor_launches E sb g" and "current_proc w = Some p"
  shows "\<exists>e. fst (Bridged_interact_with_process E sb g c r w) = Inl e"
    and "open_fds (snd (Bridged_interact_with_process E sb g c r w)) = open_fds w"
proof -
  have "(\<exists>e. fst (Bridged_interact_with_process E sb g c r w) = Inl e) \<and>
        open_fds (snd (Bridged_interact_with_process E sb g c r w)) = open_fds w"
  proof (cases "resolve_args_format_string E g")
    case (Inl e)
    then show ?thesis
      using assms(2) by (simp add: Bridged_interact_with_process_def Let_def)
  next
    case afs: (Inr afs)
    show ?thesis
    proof (cases "to_path sb")
      case (Inl e)
      then show ?thesis
        using assms(2) afs
        by (simp add: Bridged_interact_with_process_def Let_def with_mktemp_def bind_def)
    next
      case ip: (Inr ip)
      show ?thesis
      proof (cases "format_args sb afs ip ''/dev/null'' (tmp_name sb)")
        case (Inl e)
        then show ?thesis
          using assms(2) afs ip
          by (simp add: Bridged_interact_with_process_def Let_def with_mktemp_def bind_def)
      next
        case (Inr args)
        then obtain e where "interactor_launch_error sb = Some e"
          using assms(1) afs ip by (auto simp: interactor_launches_def)
        then show ?thesis
          using assms(2) afs ip Inr
          by (simp add: Bridged_interact_with_process_def Let_def with_mktemp_def bind_def)
      qed
    qed
  qed
  then show "\<exists>e. fst (Bridged_interact_with_process E sb g c r w) = Inl e"
    and "open_fds (snd (Bridged_interact_with_process E sb g c r w)) = open_fds w"
    by simp_all
qed

lemma Bridged_interact_launched:
  assumes "interactor_launches E sb g" and "current_proc w = Some p"
    and "interactor_stdin_pipe w \<in> set (open_fds w)"
    and "interactor_stdout_pipe w \<in> set (open_fds w)"
    and "interactor_stdin_pipe w \<noteq> interactor_stdout_pipe w"
  shows "\<exists>x wi. Bridged_interact_with_process E sb g c r w = (Inr x, wi)"
proof -
  from assms(1) obtain afs ip args where
    "resolve_args_format_string E g = Inr afs" "to_path sb = Inr ip"
    "format_args sb afs ip ''/dev/null'' (tmp_name sb) = Inr args"
    "interactor_launch_error sb = None"
    by (auto simp: interactor_launches_def split: sum.splits)
  then show ?thesis
    using assms(2-5)
    by (simp add: Bridged_interact_with_process_def Let_def with_mktemp_def bind_def
          os_close_def wait_def ret_def)
qed

lemma Bridged_check_open_fds:
  "open_fds (snd (Bridged_check_result E sb g c r w)) = open_fds w"
  by (auto simp: Bridged_check_result_def bind_def emit_def ret_def raise_def
           split: option.splits sum.splits)

lemma Bridged_grade_open_fds:
  "open_fds (snd (Bridged_grade fv E sb g r0 c w)) =
     (case launch_error sb of
        Some e \<Rightarrow> open_fds w @ [next_fd w, next_fd w + 1, next_fd w + 2, next_fd w + 3]
      | None \<Rightarrow>
          if interactor_launches E sb g
          then removeAll (next_fd w + 3) (removeAll (next_fd w)
                 (removeAll (next_fd w + 1) (removeAll (next_fd w + 2)
                    (open_fds w @ [next_fd w, next_fd w + 1, next_fd w + 2, next_fd w + 3]))))
          else removeAll (next_fd w + 1) (removeAll (next_fd w + 2)
                 (open_fds w @ [next_fd w, next_fd w + 1, next_fd w + 2, next_fd w + 3])))"
proof (cases "launch_error sb")
  case (Some e)
  then show ?thesis
    by (simp add: Bridged_grade_def grade_with_def run_and_populate_def bind_def
          Bridged_launch_process_eq)
next
  case None
  define w1 where "w1 = w\<lparr>open_fds := removeAll (next_fd w + 1) (removeAll (next_fd w + 2)
                         (open_fds w @ [next_fd w, next_fd w + 1, next_fd w + 2, next_fd w + 3])),
                     next_fd := next_fd w + 4,
                     interactor_stdin_pipe := next_fd w,
                     interactor_stdout_pipe := next_fd w + 3,
                     current_proc := Some Submission,
                     trace := trace w @ [PipeCreated (next_fd w) (next_fd w + 1),
                                         PipeCreated (next_fd w + 2) (next_fd w + 3),
                                         Launch Submission, Close (next_fd w + 2),
                                         Close (next_fd w + 1)]\<rparr>"
  have l: "Bridged_launch_process sb g c w = (Inr (), w1)"
    using None by (simp add: Bridged_launch_process_eq w1_def)
  have f1: "open_fds w1 = removeAll (next_fd w + 1) (removeAll (next_fd w + 2)
              (open_fds w @ [next_fd w, next_fd w + 1, next_fd w + 2, next_fd w + 3]))"
    and cp: "current_proc w1 = Some Submission"
    and si: "interactor_stdin_pipe w1 = next_fd w"
    and so: "interactor_stdout_pipe w1 = next_fd w + 3"
    by (simp_all add: w1_def)
  show ?thesis
  proof (cases "interactor_launches E sb g")
    case False
    from Bridged_interact_not_launched[OF False cp, of c r0] obtain e where
      e: "fst (Bridged_interact_with_process E sb g c r0 w1) = Inl e"
      and o: "open_fds (snd (Bridged_interact_with_process E sb g c r0 w1)) = open_fds w1"
      by blast
    obtain wi where i: "Bridged_interact_with_process E sb g c r0 w1 = (Inl e, wi)"
      using e by (cases "Bridged_interact_with_process E sb g c r0 w1") auto
    have "snd (Bridged_grade fv E sb g r0 c w) = wi"
      using l i
      by (simp add: Bridged_grade_def grade_with_def run_and_populate_def bind_def)
    then have "snd (Bridged_grade fv E sb g r0 c w) =
            snd (Bridged_interact_with_process E sb g c r0 w1)"
      using i by simp
    then show ?thesis using o f1 None False by simp
  next
    case True
    have "interactor_stdin_pipe w1 \<in> set (open_fds w1)"
      "interactor_stdout_pipe w1 \<in> set (open_fds w1)"
      "interactor_stdin_pipe w1 \<noteq> interactor_stdout_pipe w1"
      by (simp_all add: w1_def)
    from Bridged_interact_launched[OF True cp this, of c r0] obtain x wi where
      i: "Bridged_interact_with_process E sb g c r0 w1 = (Inr x, wi)" by blast
    from Bridged_interact_Inr[OF i] cp
    have x: "x = (sub_stderr sb, r0)"
      and cpi: "current_proc wi = Some Submission"
      and fi: "open_fds wi = removeAll (interactor_stdout_pipe w1)
                 (removeAll (interactor_stdin_pipe w1) (open_fds w1))"
      by (auto simp: interactor_limits_def)
    define r2 where "r2 = r0\<lparr>result_flag := result_flag r0 OR sub_flags sb OR
        (if Submission \<in> set (ole_marked wi) then OLE fv else 0),
        execution_time := sub_time sb\<rparr>"
    define w2 where "w2 = wi\<lparr>trace := trace wi @ [PopulateResult]\<rparr>"
    have rp: "run_and_populate (Bridged_launch_process sb g)
        (Bridged_interact_with_process E sb g) fv sb r0 c w = (Inr r2, w2)"
      using l i x cpi
      by (simp add: run_and_populate_def bind_def populate_result_def r2_def w2_def)
    have "open_fds (snd (bind (Bridged_check_result E sb g c r2)
             (\<lambda>check. bind (emit FreeData)
                (\<lambda>_. ret (merge_check fv r2 (normalize c check)))) w2)) = open_fds w2"
      by (rule bind_snd_inv[where P = "\<lambda>v. open_fds v = open_fds w2"])
         (simp_all add: Bridged_check_open_fds bind_def emit_def ret_def)
    then have "open_fds (snd (Bridged_grade fv E sb g r0 c w)) = open_fds w2"
      unfolding Bridged_grade_def grade_with_def by (simp add: bind_def rp)
    then show ?thesis
      using None True by (simp add: w2_def fi f1 si so)
  qed
qed

lemma Bridged_grade_launched_trace:
  assumes "launch_error sb = None" and "interactor_launches E sb g"
  shows "\<exists>post. trace (snd (Bridged_grade fv E sb g r0 c w)) =
           trace w @
             [PipeCreated (next_fd w) (next_fd w + 1),
              PipeCreated (next_fd w + 2) (next_fd w + 3),
              Launch Submission, Close (next_fd w + 2), Close (next_fd w + 1),
              TempCreated (tmp_name sb), Launch Interactor,
              Close (next_fd w), Close (next_fd w + 3),
              Wait Submission, Wait Interactor, TempDeleted (tmp_name sb),
              PopulateResult] @ post"
proof -
  define w1 where "w1 = w\<lparr>open_fds := removeAll (next_fd w + 1) (removeAll (next_fd w + 2)
                         (open_fds w @ [next_fd w, next_fd w + 1, next_fd w + 2, next_fd w + 3])),
                     next_fd := next_fd w + 4,
                     interactor_stdin_pipe := next_fd w,
                     interactor_stdout_pipe := next_fd w + 3,
                     current_proc := Some Submission,
                     trace := trace w @ [PipeCreated (next_fd w) (next_fd w + 1),
                                         PipeCreated (next_fd w + 2) (next_fd w + 3),
                                         Launch Submission, Close (next_fd w + 2),
                                         Close (next_fd w + 1)]\<rparr>"
  have l: "Bridged_launch_process sb g c w = (Inr (), w1)"
    using assms(1) by (simp add: Bridged_launch_process_eq w1_def)
  have tw1: "trace w1 = trace w @ [PipeCreated (next_fd w) (next_fd w + 1),
                                   PipeCreated (next_fd w + 2) (next_fd w + 3),
                                   Launch Submission, Close (next_fd w + 2),
                                   Close (next_fd w + 1)]"
    and cp: "current_proc w1 = Some Submission"
    and si: "interactor_stdin_pipe w1 = next_fd w"
    and so: "interactor_stdout_pipe w1 = next_fd w + 3"
    by (simp_all add: w1_def)
  have "interactor_stdin_pipe w1 \<in> set (open_fds w1)"
    "interactor_stdout_pipe w1 \<in> set (open_fds w1)"
    "interactor_stdin_pipe w1 \<noteq> interactor_stdout_pipe w1"
    by (simp_all add: w1_def)
  from Bridged_interact_launched[OF assms(2) cp this, of c r0] obtain x wi where
    i: "Bridged_interact_with_process E sb g c r0 w1 = (Inr x, wi)" by blast
  from Bridged_interact_Inr[OF i] cp
  have x: "x = (sub_stderr sb, r0)"
    and cpi: "current_proc wi = Some Submission"
    and twi: "trace wi = trace w1 @ [TempCreated (tmp_name sb), Launch Interactor,
                                     Close (interactor_stdin_pipe w1),
                                     Close (interactor_stdout_pipe w1),
                                     Wait Submission, Wait Interactor,
                                     TempDeleted (tmp_name sb)]"
    by (auto simp: interactor_limits_def)
  define r2 where "r2 = r0\<lparr>result_flag := result_flag r0 OR sub_flags sb OR
      (if Submission \<in> set (ole_marked wi) then OLE fv else 0),
      execution_time := sub_time sb\<rparr>"
  define w2 where "w2 = wi\<lparr>trace := trace wi @ [PopulateResult]\<rparr>"
  have rp: "run_and_populate (Bridged_launch_process sb g)
      (Bridged_interact_with_process E sb g) fv sb r0 c w = (Inr r2, w2)"
    using l i x cpi
    by (simp add: run_and_populate_def bind_def populate_result_def r2_def w2_def)
  obtain post where post: "trace (snd (Bridged_check_result E sb g c r2 w2)) = trace w2 @ post"
    using Bridged_check_result_trace by blast
  obtain b w3 where ch: "Bridged_check_result E sb g c r2 w2 = (b, w3)"
    by (cases "Bridged_check_result E sb g c r2 w2") auto
  have "\<exists>post'. trace (snd (Bridged_grade fv E sb g r0 c w)) = trace w2 @ post'"
    using rp ch post
    by (cases b) (simp_all add: Bridged_grade_def grade_with_def bind_def emit_def ret_def)
  then obtain post' where
    "trace (snd (Bridged_grade fv E sb g r0 c w)) = trace w2 @ post'" by blast
  then have "trace (snd (Bridged_grade fv E sb g r0 c w)) =
           trace w @
             [PipeCreated (next_fd w) (next_fd w + 1),
              PipeCreated (next_fd w + 2) (next_fd w + 3),
              Launch Submission, Close (next_fd w + 2), Close (next_fd w + 1),
              TempCreated (tmp_name sb), Launch Interactor,
              Close (next_fd w), Close (next_fd w + 3),
              Wait Submission, Wait Interactor, TempDeleted (tmp_name sb),
              PopulateResult] @ post'"
    by (simp add: w2_def twi tw1 si so)
  then show ?thesis by (rule exI)
qed

text \<open>
  C9 as stated (all pipe descriptors created for the case are closed by the time \<open>grade\<close>
  is left, on every error exit path too) fails when a step between the two launches raises:
  the interactor's ends of the two pipes are closed only after the interactor was launched
  (lines 113-114), with no guard around them. When launching the interactor raises, the
  answer file is deleted but the descriptors 3 and 6 stay open.
\<close>

theorem interactive_resources_counterexample:
  "fds_fresh world0 \<and>
   Bridged_grade flags0 (judgeenv0 (Plain True) compile_ok)
     (isandbox0 (Some (OtherError ''launch''))) bgrader0 result0
     (case0 (const_checker False (Plain False))) world0 =
   (Inl (OtherError ''launch''),
    world0\<lparr>open_fds := [3, 6], next_fd := 7, current_proc := Some Submission,
      interactor_stdin_pipe := 3, interactor_stdout_pipe := 6,
      interactor_time_limit := 3, interactor_memory_limit := 262144,
      trace := [PipeCreated 3 4, PipeCreated 5 6, Launch Submission, Close 5, Close 4,
                TempCreated ''/tmp/answer'', TempDeleted ''/tmp/answer'']\<rparr>) \<and>
   open_fds (snd (Bridged_grade flags0 (judgeenv0 (Plain True) compile_ok)
     (isandbox0 (Some (OtherError ''launch''))) bgrader0 result0
     (case0 (const_checker False (Plain False))) world0)) = [3, 6]"
  by (simp add: bridged_grade_eval fds_fresh_def)

text \<open>
  C9, amended: the answer file created for the case is deleted on every exit path of
  \<open>grade\<close>, raising ones included. The judge-held ends of the pipes are closed right after
  each handoff: the submission's ends right after the submission is launched, the
  interactor's ends right after the interactor is launched. Hence all four descriptors are
  closed by the time \<open>grade\<close> is left on every run in which the interactor was launched,
  whether \<open>grade\<close> then returns or raises (as when the adapter raises an internal error);
  only the ends not yet handed over stay open when a step before that launch raises.
\<close>

theorem interactive_resources_released:
  assumes "fds_fresh w" and "tmp_name sb \<notin> set (temp_files w)"
  shows "temp_files (snd (Bridged_grade fv E sb g r0 c w)) = temp_files w \<and>
         open_fds (snd (Bridged_grade fv E sb g r0 c w)) =
           (case launch_error sb of
              Some e \<Rightarrow> open_fds w @ [next_fd w, next_fd w + 1, next_fd w + 2, next_fd w + 3]
            | None \<Rightarrow>
                if interactor_launches E sb g then open_fds w
                else open_fds w @ [next_fd w, next_fd w + 3]) \<and>
         (launch_error sb = None \<and> interactor_launches E sb g \<longrightarrow>
            (\<exists>post. trace (snd (Bridged_grade fv E sb g r0 c w)) =
               trace w @
                 [PipeCreated (next_fd w) (next_fd w + 1),
                  PipeCreated (next_fd w + 2) (next_fd w + 3),
                  Launch Submission, Close (next_fd w + 2), Close (next_fd w + 1),
                  TempCreated (tmp_name sb), Launch Interactor,
                  Close (next_fd w), Close (next_fd w + 3),
                  Wait Submission, Wait Interactor, TempDeleted (tmp_name sb),
                  PopulateResult] @ post)) \<and>
         (\<forall>res w'. Bridged_grade fv E sb g r0 c w = (Inr res, w') \<longrightarrow>
            open_fds w' = open_fds w \<and>
            trace w' = trace w @
              [PipeCreated (next_fd w) (next_fd w + 1),
               PipeCreated (next_fd w + 2) (next_fd w + 3),
               Launch Submission, Close (next_fd w + 2), Close (next_fd w + 1),
               TempCreated (tmp_name sb), Launch Interactor,
               Close (next_fd w), Close (next_fd w + 3),
               Wait Submission, Wait Interactor, TempDeleted (tmp_name sb),
               PopulateResult, ParseReturnCode, FreeData])"
proof -
  have la: "list_all (\<lambda>fd. fd < next_fd w) (open_fds w)"
    using assms(1) by (simp add: fds_fresh_def)
  note fresh = removeAll_fresh_pipes[OF la]
  have t: "temp_files (snd (Bridged_grade fv E sb g r0 c w)) = temp_files w"
    by (rule Bridged_grade_temp_files[OF assms(2)])
  have o: "open_fds (snd (Bridged_grade fv E sb g r0 c w)) =
           (case launch_error sb of
              Some e \<Rightarrow> open_fds w @ [next_fd w, next_fd w + 1, next_fd w + 2, next_fd w + 3]
            | None \<Rightarrow>
                if interactor_launches E sb g then open_fds w
                else open_fds w @ [next_fd w, next_fd w + 3])"
  proof -
    have "next_fd w \<notin> set (open_fds w)" "next_fd w + 1 \<notin> set (open_fds w)"
      "next_fd w + 2 \<notin> set (open_fds w)" "next_fd w + 3 \<notin> set (open_fds w)"
      using la by (auto simp: list_all_iff)
    then show ?thesis
      by (simp add: Bridged_grade_open_fds split: option.splits)
  qed
  have h: "launch_error sb = None \<and> interactor_launches E sb g \<longrightarrow>
            (\<exists>post. trace (snd (Bridged_grade fv E sb g r0 c w)) =
               trace w @
                 [PipeCreated (next_fd w) (next_fd w + 1),
                  PipeCreated (next_fd w + 2) (next_fd w + 3),
                  Launch Submission, Close (next_fd w + 2), Close (next_fd w + 1),
                  TempCreated (tmp_name sb), Launch Interactor,
                  Close (next_fd w), Close (next_fd w + 3),
                  Wait Submission, Wait Interactor, TempDeleted (tmp_name sb),
                  PopulateResult] @ post)"
    using Bridged_grade_launched_trace[of sb E g fv r0 c w] by blast
  have r: "\<forall>res w'. Bridged_grade fv E sb g r0 c w = (Inr res, w') \<longrightarrow>
            open_fds w' = open_fds w \<and>
            trace w' = trace w @
              [PipeCreated (next_fd w) (next_fd w + 1),
               PipeCreated (next_fd w + 2) (next_fd w + 3),
               Launch Submission, Close (next_fd w + 2), Close (next_fd w + 1),
               TempCreated (tmp_name sb), Launch Interactor,
               Close (next_fd w), Close (next_fd w + 3),
               Wait Submission, Wait Interactor, TempDeleted (tmp_name sb),
               PopulateResult, ParseReturnCode, FreeData]"
  proof (intro allI impI)
    fix res w' assume "Bridged_grade fv E sb g r0 c w = (Inr res, w')"
    from Bridged_grade_Inr[OF this] fresh
    show "open_fds w' = open_fds w \<and>
            trace w' = trace w @
              [PipeCreated (next_fd w) (next_fd w + 1),
               PipeCreated (next_fd w + 2) (next_fd w + 3),
               Launch Submission, Close (next_fd w + 2), Close (next_fd w + 1),
               TempCreated (tmp_name sb), Launch Interactor,
               Close (next_fd w), Close (next_fd w + 3),
               Wait Submission, Wait Interactor, TempDeleted (tmp_name sb),
               PopulateResult, ParseReturnCode, FreeData]"
      by simp
  qed
  show ?thesis by (intro conjI t o h r)
qed

theorem interactive_resources_released_witness:
  "fds_fresh world0 \<and> tmp_name (isandbox0 None) \<notin> set (temp_files world0) \<and>
   launch_error (isandbox0 None) = None \<and>
   interactor_launches (judgeenv_raising (InternalError ''interactor crashed''))
     (isandbox0 None) bgrader0 \<and>
   fst (Bridged_grade flags0 (judgeenv_raising (InternalError ''interactor crashed''))
          (isandbox0 None) bgrader0 result0 (case0 (const_checker False (Plain False)))
          world0) = Inl (InternalError ''interactor crashed'') \<and>
   temp_files (snd (Bridged_grade flags0 (judgeenv_raising (InternalError ''interactor crashed''))
          (isandbox0 None) bgrader0 result0 (case0 (const_checker False (Plain False)))
          world0)) = temp_files world0 \<and>
   open_fds (snd (Bridged_grade flags0 (judgeenv_raising (InternalError ''interactor crashed''))
          (isandbox0 None) bgrader0 result0 (case0 (const_checker False (Plain False)))
          world0)) = open_fds world0"
proof -
  let ?E = "judgeenv_raising (InternalError ''interactor crashed'')"
  have a: "fds_fresh world0" by (simp add: fds_fresh_def world0_def)
  have b: "tmp_name (isandbox0 None) \<notin> set (temp_files world0)"
    by (simp add: world0_def)
  have c: "launch_error (isandbox0 None) = None" by (simp add: isandbox0_def)
  have d: "interactor_launches ?E (isandbox0 None) bgrader0"
    by (simp add: interactor_launches_def resolve_args_format_string_def judgeenv_raising_def
          judgeenv0_def adapter0_def isandbox0_def bgrader0_def handler0_def
          StandardGrader.extend_def BridgedInteractiveGrader.fields_def)
  have e: "fst (Bridged_grade flags0 ?E (isandbox0 None) bgrader0 result0
             (case0 (const_checker False (Plain False))) world0) =
           Inl (InternalError ''interactor crashed'')"
    by (simp add: bridged_grade_eval judgeenv_raising_def)
  note t = interactive_resources_released[OF a b, where fv = flags0 and E = ?E
      and g = bgrader0 and ?r0.0 = result0 and c = "case0 (const_checker False (Plain False))"]
  have f: "temp_files (snd (Bridged_grade flags0 ?E (isandbox0 None) bgrader0 result0
             (case0 (const_checker False (Plain False))) world0)) = temp_files world0"
    by (rule t[THEN conjunct1])
  have o: "open_fds (snd (Bridged_grade flags0 ?E (isandbox0 None) bgrader0 result0
             (case0 (const_checker False (Plain False))) world0)) = open_fds world0"
    unfolding t[THEN conjunct2, THEN conjunct1] using c d by simp
  show ?thesis by (intro conjI a b c d e f o)
qed

end
